theory Spec2Isabelle
  imports Main
begin

unbundle bit_operations_syntax

section \<open>The PAL assembler palbart-2.5: a shallow embedding\<close>

text \<open>
  The assembler keeps all of its state in global variables.  The embedding collects
  the globals that drive assembly in one record \<open>state\<close> and passes it through every
  function.  A C function \<open>T f(args)\<close> becomes \<open>f args st\<close>, returning the result
  together with the new state.  Behaviour that C leaves undefined (division by zero,
  an array index outside its array) and the \<open>exit\<close> of a full symbol table are values
  of the type \<open>abort\<close>, returned as \<open>Inl\<close>.

  Not modelled: the listing file (\<open>printLine\<close>, \<open>listLine\<close>, page breaks, titles and the
  \<open>listed\<close> flag), the text written to the error file (the model logs the message
  and its column instead), the symbol-table and cross-reference printers, and the
  parsers \<open>inputDubl\<close>, \<open>inputFltg\<close> and the \<open>TITLE\<close> directive.  None of them writes a
  variable that the modelled functions read.

  Octal constants of the source are written in decimal, with the octal in a comment.
\<close>

subsection \<open>Machine integers and characters\<close>

text \<open>
  \<open>WORD16\<close> is \<open>short int\<close>.  C computes in \<open>int\<close> and truncates when the result is
  stored in a \<open>WORD16\<close>; \<open>w16\<close> is that truncation (two's complement).  No intermediate
  result of the modelled code leaves the range of a 32-bit \<open>int\<close>.
\<close>

definition w16 :: "int \<Rightarrow> int" where
  "w16 x = (x + 32768) mod 65536 - 32768"

text \<open>C's \<open>/\<close> truncates towards zero.\<close>

definition c_div :: "int \<Rightarrow> int \<Rightarrow> int" where
  "c_div a b = sgn a * sgn b * (\<bar>a\<bar> div \<bar>b\<bar>)"

definition char_code :: "char \<Rightarrow> int" where
  "char_code c = of_char c"

definition NUL :: char where
  "NUL = CHR 0x00"

definition isdigit :: "char \<Rightarrow> bool" where
  "isdigit c = (48 \<le> char_code c \<and> char_code c \<le> 57)"

definition isalpha :: "char \<Rightarrow> bool" where
  "isalpha c = ((65 \<le> char_code c \<and> char_code c \<le> 90) \<or> (97 \<le> char_code c \<and> char_code c \<le> 122))"

definition isalnum :: "char \<Rightarrow> bool" where
  "isalnum c = (isalpha c \<or> isdigit c)"

definition toupper :: "char \<Rightarrow> char" where
  "toupper c =
     (case map_of (zip ''abcdefghijklmnopqrstuvwxyz'' ''ABCDEFGHIJKLMNOPQRSTUVWXYZ'') c of
        Some u \<Rightarrow> u
      | None \<Rightarrow> c)"

text \<open>The macros \<open>is_blank\<close>, \<open>isend\<close> and \<open>isdone\<close>.\<close>

definition is_blank :: "char \<Rightarrow> bool" where
  "is_blank c = (c = CHR '' '' \<or> c = CHR 0x09 \<or> c = CHR 0x0C \<or> c = CHR ''>'')"

definition isend :: "char \<Rightarrow> bool" where
  "isend c = (c = NUL \<or> c = CHR 0x0A)"

definition isdone :: "char \<Rightarrow> bool" where
  "isdone c = (c = CHR ''/'' \<or> isend c \<or> c = CHR '';'')"

subsection \<open>Data model\<close>

text \<open>Symbol types (\<open>enum symtyp\<close>) are bit sets; the values are the source's.\<close>

definition UNDEFINED :: int where "UNDEFINED = 0"
definition DEFINED :: int where "DEFINED = 1"
definition FIXED :: int where "FIXED = 2"
definition MRI :: int where "MRI = 4 OR DEFINED"
definition LABEL :: int where "LABEL = 8 OR DEFINED"
definition REDEFINED :: int where "REDEFINED = 16 OR DEFINED"
definition DUPLICATE :: int where "DUPLICATE = 32 OR DEFINED"
definition PSEUDO :: int where "PSEUDO = 64 OR FIXED OR DEFINED"
definition CONDITION :: int where "CONDITION = 128 OR DEFINED"
definition MRIFIX :: int where "MRIFIX = MRI OR FIXED OR DEFINED"
definition DEFFIX :: int where "DEFFIX = DEFINED OR FIXED"

lemmas symtyp_defs =
  UNDEFINED_def DEFINED_def FIXED_def MRI_def LABEL_def REDEFINED_def DUPLICATE_def
  PSEUDO_def CONDITION_def MRIFIX_def DEFFIX_def

definition M_CONDITIONAL :: "int \<Rightarrow> bool" where "M_CONDITIONAL s = (s AND CONDITION = CONDITION)"
definition M_DEFINED :: "int \<Rightarrow> bool" where "M_DEFINED s = (s AND DEFINED = DEFINED)"
definition M_DUPLICATE :: "int \<Rightarrow> bool" where "M_DUPLICATE s = (s AND DUPLICATE = DUPLICATE)"
definition M_FIXED :: "int \<Rightarrow> bool" where "M_FIXED s = (s AND FIXED = FIXED)"
definition M_LABEL :: "int \<Rightarrow> bool" where "M_LABEL s = (s AND LABEL = LABEL)"
definition M_MRI :: "int \<Rightarrow> bool" where "M_MRI s = (s AND MRI = MRI)"
definition M_PSEUDO :: "int \<Rightarrow> bool" where "M_PSEUDO s = (s AND PSEUDO = PSEUDO)"
definition M_REDEFINED :: "int \<Rightarrow> bool" where "M_REDEFINED s = (s AND REDEFINED = REDEFINED)"
definition M_UNDEFINED :: "int \<Rightarrow> bool" where "M_UNDEFINED s = (\<not> M_DEFINED s)"

text \<open>
  The macros of the conditional pseudo-ops, as the source defines them: both \<open>M_DEF\<close>
  and \<open>M_COND\<close> expand to \<open>M_DEFINED\<close>.
\<close>

definition M_DEF :: "int \<Rightarrow> bool" where "M_DEF s = M_DEFINED s"
definition M_COND :: "int \<Rightarrow> bool" where "M_COND s = M_DEFINED s"

definition M_DEFINED_CONDITIONALLY :: "int \<Rightarrow> int \<Rightarrow> bool" where
  "M_DEFINED_CONDITIONALLY pass t = ((M_DEF t \<and> pass = 1) \<or> (\<not> M_COND t \<and> pass = 2))"

datatype pseudo_t =
    BANK | BINPUNCH | DECIMAL | DUBL | EJECT | ENPUNCH | EXPUNGE | FIELD
  | FIXMRI | FIXTAB | FLTG | IFDEF | IFNDEF | IFNZERO | IFZERO | NOPUNCH
  | OCTAL | PAGE | PAUSE | RELOC | RIMPUNCH | SEGMNT | TEXT | TITLE
  | XLIST | ZBLOCK

text \<open>The order of \<open>enum pseudo_t\<close>: each directive's integer value is its position.\<close>

definition pseudo_order :: "pseudo_t list" where
  "pseudo_order =
     [BANK, BINPUNCH, DECIMAL, DUBL, EJECT, ENPUNCH, EXPUNGE, FIELD,
      FIXMRI, FIXTAB, FLTG, IFDEF, IFNDEF, IFNZERO, IFZERO, NOPUNCH,
      OCTAL, PAGE, PAUSE, RELOC, RIMPUNCH, SEGMNT, TEXT, TITLE,
      XLIST, ZBLOCK]"

fun index_of :: "'a \<Rightarrow> 'a list \<Rightarrow> int" where
  "index_of x [] = 0"
| "index_of x (y # ys) = (if x = y then 0 else 1 + index_of x ys)"

definition pseudo_code :: "pseudo_t \<Rightarrow> int" where
  "pseudo_code p = index_of p pseudo_order"

record sym_t =
  type :: int
  name :: string
  val :: int
  xref_index :: int
  xref_count :: int

record lpool_t =
  error :: bool
  loc :: int
  pool :: "int list"

datatype lpool_ref = CP | PZ

datatype emsg =
    duplicate_label | illegal_blank | illegal_character | illegal_expression
  | label_syntax | not_a_number | number_not_radix | symbol_syntax
  | illegal_equals | illegal_indirect | illegal_reference | undefined_symbol
  | redefined_symbol | literal_overflow | pz_literal_overflow
  | zblock_too_small | zblock_too_large | end_of_file | no_pseudo_op
  | illegal_field_value | literal_gen_off | no_literal_value | text_string
  | in_rim_mode | lt_expected | symbol_table_full

datatype abort =
    DivideByZero
  | PoolIndexOutOfRange int
  | SymbolTableFull
  | OutOfFuel
  | NotModelled pseudo_t

text \<open>
  The globals.  \<open>symtab\<close> holds the entries \<open>symtab[0 .. symbol_top - 1]\<close>, so
  \<open>symbol_top\<close> is its length.  \<open>line\<close> is the text of the line buffer up to its
  terminating NUL.  \<open>infile\<close> is the unread rest of the source file.  \<open>objectfile\<close>
  and \<open>objectsave\<close> say whether the pointer is non-NULL; \<open>object_bytes\<close> are the
  bytes written to the object file so far.  \<open>errorfile_log\<close> has one entry (message,
  column) for each line written to the error file.
\<close>

record state =
  pass :: int
  infile :: string
  line :: string
  lineno :: int
  cc :: int
  maxcc :: int
  lexstart :: int
  lexterm :: int
  lexstartprev :: int
  lextermprev :: int
  delimiter :: char
  clc :: int
  field :: int
  fieldlc :: int
  reloc :: int
  radix :: int
  checksum :: int
  binary_data_output :: bool
  rim_mode :: bool
  literals_on :: bool
  error_in_line :: bool
  indirect_generated :: bool
  errors :: int
  errorfile_log :: "(emsg \<times> int) list"
  cp :: lpool_t
  pz :: lpool_t
  symtab :: "sym_t list"
  number_of_fixed_symbols :: int
  sym_getexpr :: sym_t
  xref :: bool
  xreftab :: "int \<Rightarrow> int"
  last_xref_lexstart :: int
  last_xref_lineno :: int
  objectfile :: bool
  objectsave :: bool
  object_bytes :: "int list"

definition bindA :: "abort + 'a \<Rightarrow> ('a \<Rightarrow> abort + 'b) \<Rightarrow> abort + 'b" where
  "bindA m f = (case m of Inl e \<Rightarrow> Inl e | Inr x \<Rightarrow> f x)"

lemma bindA_simps [simp]:
  "bindA (Inl e) f = Inl e"
  "bindA (Inr x) f = f x"
  by (simp_all add: bindA_def)

lemma bindA_Inr_iff:
  "bindA m f = Inr y \<longleftrightarrow> (\<exists>x. m = Inr x \<and> f x = Inr y)"
  by (cases m) simp_all

text \<open>
  \<open>line[i]\<close>.  The buffer is NUL-terminated at \<open>length line\<close>; the model reads NUL at
  every index outside the text.
\<close>

definition line_at :: "state \<Rightarrow> int \<Rightarrow> char" where
  "line_at st i = (if 0 \<le> i \<and> i < int (length (line st)) then line st ! nat i else NUL)"

subsection \<open>Error reports\<close>

text \<open>
  \<open>errorMessage\<close>, \<open>errorSymbol\<close> and \<open>errorLexeme\<close> differ in the text they print only.
  On pass 2 they count the error and write a line to the error file; on both passes
  they set \<open>error_in_line\<close>.
\<close>

definition errorSymbol :: "emsg \<Rightarrow> int \<Rightarrow> state \<Rightarrow> state" where
  "errorSymbol mesg col st =
     (let st1 = (if pass st = 2
                 then st\<lparr>errors := errors st + 1,
                         errorfile_log := errorfile_log st @ [(mesg, col)]\<rparr>
                 else st)
      in st1\<lparr>error_in_line := True\<rparr>)"

definition errorMessage :: "emsg \<Rightarrow> int \<Rightarrow> state \<Rightarrow> state" where
  "errorMessage mesg col st = errorSymbol mesg col st"

definition errorLexeme :: "emsg \<Rightarrow> int \<Rightarrow> state \<Rightarrow> state" where
  "errorLexeme mesg col st = errorSymbol mesg col st"

subsection \<open>Lexer\<close>

text \<open>\<open>while( is_blank( line[cc] )) cc++\<close> and the two other scanning loops.\<close>

function skip_while :: "(char \<Rightarrow> bool) \<Rightarrow> string \<Rightarrow> int \<Rightarrow> int" where
  "skip_while p ln i =
     (if 0 \<le> i \<and> i < int (length ln) \<and> p (ln ! nat i) then skip_while p ln (i + 1) else i)"
  by pat_completeness auto
termination
  by (relation "measure (\<lambda>(p, ln, i). nat (int (length ln) - i))") auto

declare skip_while.simps [simp del]

definition moveToEndOfLine :: "state \<Rightarrow> state" where
  "moveToEndOfLine st =
     (let c = skip_while (\<lambda>ch. \<not> isend ch) (line st) (cc st)
      in st\<lparr>cc := c, lexstart := c, lexterm := c, lexstartprev := c\<rparr>)"

definition nextLexeme :: "state \<Rightarrow> state" where
  "nextLexeme st =
     (let st1 = st\<lparr>lexstartprev := lexstart st, lextermprev := lexterm st\<rparr>;
          c0 = skip_while is_blank (line st1) (cc st1);
          st2 = st1\<lparr>cc := c0, lexstart := c0\<rparr>;
          st3 =
            (if isalnum (line_at st2 c0) then st2\<lparr>cc := skip_while isalnum (line st2) c0\<rparr>
             else if isend (line_at st2 c0) then st2
             else if line_at st2 c0 = CHR 0x22 then
               (if c0 + 2 < maxcc st2 then st2\<lparr>cc := c0 + 2\<rparr>
                else (errorMessage no_literal_value (lexstart st2) st2)\<lparr>cc := c0 + 1\<rparr>)
             else if line_at st2 c0 = CHR ''/'' then st2
             else st2\<lparr>cc := c0 + 1\<rparr>)
      in st3\<lparr>lexterm := cc st3\<rparr>)"

definition nextLexBlank :: "state \<Rightarrow> state" where
  "nextLexBlank st =
     (let st1 = nextLexeme st;
          st2 = (if is_blank (delimiter st1)
                 then errorMessage illegal_blank (lexstart st1 - 1) st1 else st1)
      in st2\<lparr>delimiter := line_at st2 (lexterm st2)\<rparr>)"

text \<open>
  \<open>lexemeToName\<close>: at most six characters (\<open>SYMLEN - 1\<close>) of the lexeme, in upper
  case.  The C string ends at the first NUL, which a lexeme never contains.
\<close>

function lexemeToName_loop :: "state \<Rightarrow> int \<Rightarrow> int \<Rightarrow> int \<Rightarrow> string" where
  "lexemeToName_loop st from term to =
     (if from < term \<and> to < 6
      then toupper (line_at st from) # lexemeToName_loop st (from + 1) term (to + 1)
      else [])"
  by pat_completeness auto
termination
  by (relation "measure (\<lambda>(st, from, term, to). nat (6 - to))") auto

declare lexemeToName_loop.simps [simp del]

definition lexemeToName :: "state \<Rightarrow> int \<Rightarrow> int \<Rightarrow> string" where
  "lexemeToName st from term = lexemeToName_loop st from term 0"

subsection \<open>Symbol table\<close>

definition sym_undefined :: sym_t where
  "sym_undefined = \<lparr>type = UNDEFINED, name = [], val = 0, xref_index = 0, xref_count = 0\<rparr>"

text \<open>
  \<open>symtab[i]\<close>.  The slot \<open>symtab[symbol_top]\<close> always holds a copy of \<open>sym_undefined\<close>:
  it is put there at start-up and by \<open>EXPUNGE\<close>, and every insertion moves it up with
  the tail of the table.
\<close>

definition symtab_at :: "sym_t list \<Rightarrow> int \<Rightarrow> sym_t" where
  "symtab_at tab i = (if 0 \<le> i \<and> i < int (length tab) then tab ! nat i else sym_undefined)"

definition symbol_top :: "state \<Rightarrow> int" where
  "symbol_top st = int (length (symtab st))"

text \<open>The sign of \<open>strcmp\<close>; characters compare as unsigned bytes.\<close>

fun strcmp :: "string \<Rightarrow> string \<Rightarrow> int" where
  "strcmp [] [] = 0"
| "strcmp [] (y # ys) = -1"
| "strcmp (x # xs) [] = 1"
| "strcmp (x # xs) (y # ys) =
     (if x = y then strcmp xs ys else if char_code x < char_code y then -1 else 1)"

text \<open>
  The loop of \<open>binarySearch\<close>, on the left and right index.  Both are non-negative
  whenever the middle is computed, so C's division is \<open>div\<close>.  \<open>NOT lx\<close> is \<open>~lx\<close>.
\<close>

function binarySearch_loop :: "sym_t list \<Rightarrow> string \<Rightarrow> int \<Rightarrow> int \<Rightarrow> int" where
  "binarySearch_loop tab nm lx rx =
     (if lx \<le> rx then
        (let mx = (lx + rx) div 2;
             compare = strcmp nm (name (symtab_at tab mx))
         in if compare < 0 then binarySearch_loop tab nm lx (mx - 1)
            else if compare > 0 then binarySearch_loop tab nm (mx + 1) rx
            else mx)
      else NOT lx)"
  by pat_completeness auto
termination
  by (relation "measure (\<lambda>(tab, nm, lx, rx). nat (rx - lx + 1))") auto

declare binarySearch_loop.simps [simp del]

definition binarySearch :: "string \<Rightarrow> int \<Rightarrow> int \<Rightarrow> state \<Rightarrow> int" where
  "binarySearch nm start symbol_count st =
     binarySearch_loop (symtab st) nm start (symbol_count - 1)"

text \<open>
  \<open>lookup\<close> returns the index of the entry (the C function returns its address).  A
  new entry takes over the \<open>xref_index\<close> found in the slot it is written to.  On a
  full table the C code reports \<open>symbol_table_full\<close> and calls \<open>exit\<close>.
\<close>

definition lookup :: "string \<Rightarrow> state \<Rightarrow> abort + (int \<times> state)" where
  "lookup nm st =
     (let ix = binarySearch nm 0 (number_of_fixed_symbols st) st
      in if ix < 0 then
           (let ix2 = binarySearch nm (number_of_fixed_symbols st) (symbol_top st) st
            in if ix2 < 0 then
                 (let ins = NOT ix2;
                      new = \<lparr>type = UNDEFINED, name = nm, val = 0,
                             xref_index = xref_index (symtab_at (symtab st) ins),
                             xref_count = 0\<rparr>
                  in if symbol_top st + 1 \<ge> 1024 then Inl SymbolTableFull
                     else Inr (ins,
                       st\<lparr>symtab := take (nat ins) (symtab st) @ [new] @ drop (nat ins) (symtab st),
                          xreftab := (if xref st \<and> pass st = 2
                                      then (xreftab st)(xref_index new := 0)
                                      else xreftab st)\<rparr>))
               else Inr (ix2, st))
         else Inr (ix, st))"

definition evalSymbol :: "state \<Rightarrow> abort + (int \<times> state)" where
  "evalSymbol st =
     bindA (lookup (lexemeToName st (lexstart st) (lexterm st)) st) (\<lambda>res. let ix = fst res; st1 = snd res in
       if lexstart st1 \<noteq> last_xref_lexstart st1 \<or> lineno st1 \<noteq> last_xref_lineno st1 then
         (let sym = symtab_at (symtab st1) ix;
              sym1 = sym\<lparr>xref_count := xref_count sym + 1\<rparr>
          in Inr (ix,
               st1\<lparr>symtab := (symtab st1)[nat ix := sym1],
                   last_xref_lexstart := lexstart st1,
                   last_xref_lineno := lineno st1,
                   xreftab := (if xref st1 \<and> pass st1 = 2
                               then (xreftab st1)(xref_index sym1 + xref_count sym1 := w16 (lineno st1))
                               else xreftab st1)\<rparr>))
       else Inr (ix, st1))"

text \<open>
  \<open>defineSymbol\<close>.  \<open>redef\<close> is the test \<open>M_DEFINED(sym->type) && pass == 2 &&
  sym->val != val\<close>; inside it the error is reported under \<open>M_REDEFINED(sym->type)\<close>.
  The test \<open>type == LABEL\<close> reads the parameter after \<open>REDEFINED\<close> has been or-ed in.
\<close>

definition defineSymbol :: "string \<Rightarrow> int \<Rightarrow> int \<Rightarrow> int \<Rightarrow> state \<Rightarrow> abort + state" where
  "defineSymbol nm v ty start st =
     (if length nm < 1 then Inr st
      else bindA (lookup nm st) (\<lambda>res. let ix = fst res; st1 = snd res in
        let sym = symtab_at (symtab st1) ix
        in if M_FIXED (type sym) then Inr st1
           else
             (let redef = (M_DEFINED (type sym) \<and> pass st1 = 2 \<and> val sym \<noteq> v);
                  st2 = (if redef \<and> M_REDEFINED (type sym)
                         then errorSymbol redefined_symbol start st1 else st1);
                  ty1 = (if redef then ty OR REDEFINED else ty);
                  cnt = (if redef then xref_count sym + 1 else xref_count sym);
                  xc = (if redef then cnt else 0);
                  xt = (if pass st2 = 2 \<and> xref st2
                        then ((xreftab st2)(xref_index sym := w16 (lineno st2)))
                               (xref_index sym + xc := w16 (lineno st2))
                        else xreftab st2);
                  sym1 = sym\<lparr>val := (if ty1 = LABEL then v else v AND 4095),
                             type := (if pass st2 = 1 then ty1 OR CONDITION else ty1),
                             xref_count := cnt\<rparr>
              in Inr (st2\<lparr>symtab := (symtab st2)[nat ix := sym1], xreftab := xt\<rparr>))))"

definition defineLexeme :: "int \<Rightarrow> int \<Rightarrow> int \<Rightarrow> int \<Rightarrow> state \<Rightarrow> abort + state" where
  "defineLexeme start term v ty st = defineSymbol (lexemeToName st start term) v ty (w16 start) st"

subsection \<open>Object encoder\<close>

text \<open>\<open>punchObject\<close>: one frame; \<open>255\<close> is \<open>0377\<close>.\<close>

definition punchObject :: "int \<Rightarrow> state \<Rightarrow> state" where
  "punchObject v st =
     (let b = v AND 255
      in st\<lparr>object_bytes := (if objectfile st then object_bytes st @ [b] else object_bytes st),
            checksum := w16 (checksum st + b),
            binary_data_output := True\<rparr>)"

text \<open>\<open>punchOrigin\<close>: \<open>((loc >> 6) & 077) | 0100\<close>, then \<open>loc & 077\<close>.\<close>

definition punchOrigin :: "int \<Rightarrow> state \<Rightarrow> state" where
  "punchOrigin l st =
     punchObject (l AND 63) (punchObject ((drop_bit 6 l AND 63) OR 64) st)"

definition punchLocObject :: "int \<Rightarrow> int \<Rightarrow> state \<Rightarrow> state" where
  "punchLocObject l v st =
     (let st1 = (if rim_mode st then punchOrigin l st else st)
      in punchObject (v AND 63) (punchObject (drop_bit 6 v AND 63) st1))"

text \<open>\<open>punchOutObject\<close> lists the line and punches the word.\<close>

definition punchOutObject :: "int \<Rightarrow> int \<Rightarrow> state \<Rightarrow> state" where
  "punchOutObject l v st = punchLocObject l v st"

text \<open>\<open>punchLeader\<close> writes \<open>0200\<close> frames with \<open>fputc\<close>, not through \<open>punchObject\<close>.\<close>

definition punchLeader :: "int \<Rightarrow> state \<Rightarrow> state" where
  "punchLeader count st =
     (let n = (if count = 0 then 240 else count)
      in if objectfile st then st\<lparr>object_bytes := object_bytes st @ replicate (nat n) 128\<rparr>
         else st)"

definition punchChecksum :: "state \<Rightarrow> state" where
  "punchChecksum st =
     (let st1 = (if binary_data_output st \<and> \<not> rim_mode st
                 then punchLocObject 0 (checksum st) st else st)
      in st1\<lparr>binary_data_output := False, checksum := 0\<rparr>)"

subsection \<open>Literal pools\<close>

definition get_pool :: "lpool_ref \<Rightarrow> state \<Rightarrow> lpool_t" where
  "get_pool r st = (case r of CP \<Rightarrow> cp st | PZ \<Rightarrow> pz st)"

definition set_pool :: "lpool_ref \<Rightarrow> lpool_t \<Rightarrow> state \<Rightarrow> state" where
  "set_pool r p st = (case r of CP \<Rightarrow> st\<lparr>cp := p\<rparr> | PZ \<Rightarrow> st\<lparr>pz := p\<rparr>)"

text \<open>
  The search loop of \<open>insertLiteral\<close>, from \<open>ix\<close> downwards.  \<open>pool\<close> has 128
  elements (\<open>PAGE_SIZE\<close>); an index outside it is undefined behaviour.
\<close>

function search_pool :: "lpool_t \<Rightarrow> int \<Rightarrow> int \<Rightarrow> abort + int" where
  "search_pool p v ix =
     (if ix \<ge> loc p then
        (if ix < 0 \<or> ix \<ge> 128 then Inl (PoolIndexOutOfRange ix)
         else if pool p ! nat ix \<noteq> v then search_pool p v (ix - 1)
         else Inr ix)
      else Inr ix)"
  by pat_completeness auto
termination
  by (relation "measure (\<lambda>(p, v, ix). nat (ix + 1))") auto

declare search_pool.simps [simp del]

text \<open>
  \<open>insertLiteral\<close>.  When \<open>clc\<close> is on page zero the page-zero pool is used whatever
  pool was passed (\<open>3968\<close> is \<open>07600\<close>).  There is no test that the pool has room:
  with \<open>loc = 0\<close> the decrement gives \<open>-1\<close> and the store goes to \<open>pool[-1]\<close>.
\<close>

definition insertLiteral :: "lpool_ref \<Rightarrow> int \<Rightarrow> state \<Rightarrow> abort + (int \<times> state)" where
  "insertLiteral r v st =
     (let r1 = (if clc st AND 3968 = 0 then PZ else r);
          p = get_pool r1 st
      in bindA (search_pool p v 127) (\<lambda>ix.
           if ix < loc p then
             (let l = w16 (loc p - 1)
              in if l < 0 \<or> l \<ge> 128 then Inl (PoolIndexOutOfRange l)
                 else Inr (l, set_pool r1 (p\<lparr>loc := l, pool := (pool p)[nat l := v]\<rparr>) st))
           else Inr (ix, st)))"

text \<open>
  \<open>punchLiteralPool\<close>: the origin (BIN mode), then the words \<open>pool[loc .. 127]\<close>, then
  the reset of the pool (\<open>128\<close> is \<open>0200\<close>).
\<close>

function punch_pool_loop :: "lpool_t \<Rightarrow> int \<Rightarrow> int \<Rightarrow> state \<Rightarrow> state" where
  "punch_pool_loop p lpool_page l st =
     (if 0 \<le> l \<and> l < 128
      then punch_pool_loop p lpool_page (l + 1)
             (punchLocObject (w16 (l + lpool_page)) (pool p ! nat l) st)
      else st)"
  by pat_completeness auto
termination
  by (relation "measure (\<lambda>(p, lpool_page, l, st). nat (128 - l))") auto

declare punch_pool_loop.simps [simp del]

definition punchLiteralPool :: "lpool_ref \<Rightarrow> int \<Rightarrow> state \<Rightarrow> abort + state" where
  "punchLiteralPool r lpool_page0 st =
     (let lpool_page = lpool_page0 AND 3968;
          p = get_pool r st
      in if loc p < 128 then
           (if loc p < 0 then Inl (PoolIndexOutOfRange (loc p))
            else
              (let st1 = (if \<not> rim_mode st then punchOrigin (loc p OR lpool_page) st else st);
                   st2 = punch_pool_loop p lpool_page (loc p) st1
               in Inr (set_pool r ((get_pool r st2)\<lparr>error := False, loc := 128\<rparr>) st2)))
         else Inr st)"

text \<open>\<open>testForLiteralCollision\<close>; \<open>127\<close> is \<open>0177\<close>.\<close>

definition testForLiteralCollision :: "int \<Rightarrow> state \<Rightarrow> bool \<times> state" where
  "testForLiteralCollision l st =
     (let tmppage = l AND 3968;
          pagelc = l AND 127
      in if tmppage = 0 then
           (if pagelc \<ge> loc (pz st) \<and> \<not> error (pz st)
            then (True, (errorMessage pz_literal_overflow (-1) st)\<lparr>pz := (pz st)\<lparr>error := True\<rparr>\<rparr>)
            else (False, st))
         else
           (if pagelc \<ge> loc (cp st) \<and> \<not> error (cp st)
            then (True, (errorMessage literal_overflow (-1) st)\<lparr>cp := (cp st)\<lparr>error := True\<rparr>\<rparr>)
            else (False, st)))"

text \<open>\<open>incrementClc\<close>; \<open>28672\<close> is \<open>070000\<close> and \<open>4095\<close> is \<open>07777\<close>.\<close>

definition incrementClc :: "state \<Rightarrow> state" where
  "incrementClc st =
     (let st1 = snd (testForLiteralCollision (clc st) st);
          c = w16 ((clc st1 AND 28672) + ((clc st1 + 1) AND 4095))
      in st1\<lparr>clc := c, fieldlc := c AND 4095\<rparr>)"

definition endOfBinary :: "state \<Rightarrow> abort + state" where
  "endOfBinary st =
     bindA (punchLiteralPool CP (w16 (clc st - 1)) st) (\<lambda>st1.
     bindA (punchLiteralPool PZ 0 st1) (\<lambda>st2.
       if error_in_line st2 then
         (let st3 = st2\<lparr>clc := w16 ((clc st2 AND 28672) + ((clc st2 - 1) AND 4095))\<rparr>;
              st4 = errorMessage end_of_file (-1) st3
          in Inr (st4\<lparr>clc := w16 ((clc st4 AND 28672) + ((clc st4 + 1) AND 4095))\<rparr>))
       else Inr st2))"

subsection \<open>Expression evaluator\<close>

text \<open>
  \<open>eval\<close>, \<open>getExpr\<close> and \<open>getExprs\<close> call each other (through \<open>[expr]\<close> and
  \<open>(exprs)\<close>) and loop over the lexemes of the line.  The model bounds the number of
  nested calls and loop rounds by a fuel argument and returns \<open>OutOfFuel\<close> when it
  is used up.  The C functions return a pointer to a symbol-table entry or to one of
  the holders \<open>sym_eval\<close> and \<open>sym_getexpr\<close>; every caller reads the fields at once,
  so the model returns the record.
\<close>

definition sym_eval :: "int \<Rightarrow> sym_t" where
  "sym_eval v = \<lparr>type = DEFINED, name = [], val = v, xref_index = 0, xref_count = 0\<rparr>"

text \<open>The digit loop of \<open>eval\<close>: \<open>from\<close> runs up to \<open>lexterm\<close>.\<close>

function eval_number :: "int \<Rightarrow> int \<Rightarrow> state \<Rightarrow> int \<times> state" where
  "eval_number from v st =
     (if from < lexterm st then
        (if isdigit (line_at st from) then
           (let digit = w16 (char_code (line_at st from) - 48)
            in if digit < radix st then eval_number (from + 1) (w16 (v * radix st + digit)) st
               else (0, errorLexeme number_not_radix from st))
         else (0, errorLexeme not_a_number (lexstart st) st))
      else (v, st))"
  by pat_completeness auto
termination
  by (relation "measure (\<lambda>(from, v, st). nat (lexterm st - from))") auto

declare eval_number.simps [simp del]

text \<open>The identifier branch of \<open>eval\<close>.\<close>

definition eval_identifier :: "state \<Rightarrow> abort + (sym_t \<times> state)" where
  "eval_identifier st =
     bindA (evalSymbol st) (\<lambda>res. let ix = fst res; st1 = snd res in
       let sym = symtab_at (symtab st1) ix
       in if M_UNDEFINED (type sym) \<and> pass st1 = 2
          then Inr (sym, nextLexeme (errorSymbol undefined_symbol (lexstart st1) st1))
          else Inr (sym, nextLexeme st1))"

text \<open>The branches \<open>"c\<close> and \<open>.\<close> and the error branch of \<open>eval\<close>; \<open>128\<close> is \<open>0200\<close>.\<close>

definition eval_quote :: "state \<Rightarrow> sym_t \<times> state" where
  "eval_quote st =
     (if cc st + 2 < maxcc st then
        (sym_eval (w16 (char_code (line_at st (lexstart st + 1)) OR 128)),
         nextLexeme (st\<lparr>delimiter := line_at st (lexstart st + 2), cc := lexstart st + 2\<rparr>))
      else (sym_eval 0, nextLexeme (errorMessage no_literal_value (lexstart st) st)))"

definition eval_dot :: "state \<Rightarrow> sym_t \<times> state" where
  "eval_dot st = (sym_eval (w16 (clc st + reloc st)), nextLexeme st)"

definition eval_illegal :: "state \<Rightarrow> sym_t \<times> state" where
  "eval_illegal st =
     (let st1 = (if line_at st (lexstart st) = CHR ''=''
                 then moveToEndOfLine (errorMessage illegal_equals (lexstart st) st)
                 else errorMessage illegal_character (lexstart st) st)
      in (sym_eval 0, nextLexBlank st1))"

text \<open>
  One operator of \<open>getExpr\<close> applied to the accumulated value and the next term.
  The division is unguarded in the source; dividing by zero is undefined in C.
\<close>

definition apply_operator :: "char \<Rightarrow> int \<Rightarrow> int \<Rightarrow> abort + int" where
  "apply_operator opr a b =
     (if opr = CHR ''+'' then Inr (w16 (a + b))
      else if opr = CHR ''-'' then Inr (w16 (a - b))
      else if opr = CHR ''^'' then Inr (w16 (a * b))
      else if opr = CHR ''%'' then (if b = 0 then Inl DivideByZero else Inr (w16 (c_div a b)))
      else if opr = CHR ''&'' then Inr (w16 (a AND b))
      else Inr (w16 (a OR b)))"

definition is_operator :: "char \<Rightarrow> bool" where
  "is_operator c = (c = CHR ''+'' \<or> c = CHR ''-'' \<or> c = CHR ''^'' \<or> c = CHR ''%''
                    \<or> c = CHR ''&'' \<or> c = CHR ''!'')"

text \<open>The \<open>default\<close> branch of the operator switch of \<open>getExpr\<close>.\<close>

definition getExpr_default :: "state \<Rightarrow> sym_t \<times> state" where
  "getExpr_default st =
     (let c = line_at st (lexstart st)
      in if isend c then (sym_getexpr st, st)
         else if c = CHR ''/'' \<or> c = CHR '';'' \<or> c = CHR '')'' \<or> c = CHR '']'' \<or> c = CHR ''<''
           then (sym_getexpr st, st)
         else
           (let st1 = moveToEndOfLine
                        (errorMessage (if c = CHR ''='' then illegal_equals else illegal_expression)
                           (lexstart st) st);
                st2 = st1\<lparr>sym_getexpr := (sym_getexpr st1)\<lparr>val := 0\<rparr>\<rparr>
            in (sym_getexpr st2, st2)))"

text \<open>
  The body of the loop of \<open>getExprs\<close> after \<open>symt = getExpr()\<close>: the next operand is
  or-ed into \<open>value\<close>.  \<open>256\<close> is \<open>INDIRECT_BIT\<close>, \<open>128\<close> is \<open>PAGE_BIT\<close>, \<open>127\<close> is
  \<open>ADDRESS_FIELD\<close>, \<open>384\<close> is \<open>00600\<close>.
\<close>

definition getExprs_combine :: "int \<Rightarrow> int \<Rightarrow> sym_t \<Rightarrow> state \<Rightarrow> abort + (int \<times> state)" where
  "getExprs_combine v value_type symt st =
     (let temp = val symt AND 4095;
          temp_type = type symt
      in if value_type = MRI \<or> value_type = MRIFIX then
           (if temp_type = MRI \<or> temp_type = MRIFIX then Inr (w16 (v OR temp), st)
            else if temp < 128 then Inr (w16 (v OR temp), st)
            else if ((fieldlc st + reloc st) AND 3968) \<le> temp
                    \<and> temp \<le> ((fieldlc st + reloc st) OR 127)
              then Inr (w16 (v OR (128 OR (temp AND 127))), st)
            else if v AND 256 = 256
              then Inr (v, errorSymbol illegal_indirect (lexstartprev st) st)
            else if literals_on st then
              bindA (insertLiteral CP temp st) (\<lambda>res. let ix = fst res; st1 = snd res in
                Inr (w16 (v OR (384 OR ix)), st1\<lparr>indirect_generated := True\<rparr>))
            else Inr (w16 (v OR (temp AND 127)),
                      errorSymbol illegal_reference (lexstartprev st) st))
         else Inr (w16 (v OR temp), st))"

text \<open>
  In \<open>sym_getexpr.val += (eval())->val\<close> and its siblings C does not fix whether the
  left operand is read before or after the call; the model reads it after the call,
  so a nested \<open>getExpr\<close> inside the term has already overwritten the holder.
\<close>

fun eval :: "nat \<Rightarrow> state \<Rightarrow> abort + (sym_t \<times> state)"
  and getExpr :: "nat \<Rightarrow> state \<Rightarrow> abort + (sym_t \<times> state)"
  and getExpr_loop :: "nat \<Rightarrow> state \<Rightarrow> abort + (sym_t \<times> state)"
  and getExprs :: "nat \<Rightarrow> state \<Rightarrow> abort + (int \<times> state)"
  and getExprs_loop :: "nat \<Rightarrow> int \<Rightarrow> int \<Rightarrow> state \<Rightarrow> abort + (int \<times> state)"
where
  "eval 0 st = Inl OutOfFuel"
| "eval (Suc n) st0 =
     (let st = st0\<lparr>delimiter := line_at st0 (lexterm st0)\<rparr>;
          c = line_at st (lexstart st)
      in if isalpha c then eval_identifier st
         else if isdigit c then
           (let res = eval_number (lexstart st) 0 st
            in Inr (sym_eval (fst res), nextLexeme (snd res)))
         else if c = CHR 0x22 then Inr (eval_quote st)
         else if c = CHR ''.'' then Inr (eval_dot st)
         else if c = CHR ''['' then
           (let st1 = (if \<not> literals_on st then errorMessage literal_gen_off (lexstart st) st else st);
                st2 = nextLexBlank st1
            in bindA (getExpr n st2) (\<lambda>res. let s = fst res; st3 = snd res in
                 let v = val s AND 4095;
                     st4 = (if line_at st3 (lexstart st3) = CHR '']'' then nextLexBlank st3 else st3)
                 in if literals_on st4
                    then bindA (insertLiteral PZ v st4) (\<lambda>res. let ix = fst res; st5 = snd res in Inr (sym_eval ix, st5))
                    else Inr (sym_eval 0, st4)))
         else if c = CHR ''('' then
           (let st1 = (if \<not> literals_on st then errorMessage literal_gen_off (lexstart st) st else st);
                st2 = nextLexBlank st1
            in bindA (getExprs n st2) (\<lambda>res. let v0 = fst res; st3 = snd res in
                 let v = v0 AND 4095;
                     st4 = (if line_at st3 (lexstart st3) = CHR '')'' then nextLexBlank st3 else st3)
                 in bindA (if literals_on st4 then insertLiteral CP v st4 else Inr (0, st4))
                      (\<lambda>res. let l = fst res; st5 = snd res in Inr (sym_eval (w16 (l + ((clc st5 + reloc st5) AND 32640))), st5))))
         else Inr (eval_illegal st))"
| "getExpr 0 st = Inl OutOfFuel"
| "getExpr (Suc n) st0 =
     (let st = st0\<lparr>delimiter := line_at st0 (lexterm st0)\<rparr>
      in bindA
           (if line_at st (lexstart st) = CHR ''-''
            then bindA (eval n (nextLexBlank st)) (\<lambda>res. let s = fst res; st1 = snd res in
                   Inr (st1\<lparr>sym_getexpr := s\<lparr>val := w16 (- val s)\<rparr>\<rparr>))
            else bindA (eval n st) (\<lambda>res. let s = fst res; st1 = snd res in Inr (st1\<lparr>sym_getexpr := s\<rparr>)))
           (\<lambda>st2. if is_blank (delimiter st2) then Inr (sym_getexpr st2, st2)
                   else getExpr_loop n st2))"
| "getExpr_loop 0 st = Inl OutOfFuel"
| "getExpr_loop (Suc n) st =
     (if is_blank (delimiter st) then Inr (sym_getexpr st, st)
      else
        (let c = line_at st (lexstart st)
         in if is_operator c then
              bindA (eval n (nextLexBlank st)) (\<lambda>res. let s = fst res; st1 = snd res in
              bindA (apply_operator c (val (sym_getexpr st1)) (val s)) (\<lambda>v.
                getExpr_loop n (st1\<lparr>sym_getexpr := (sym_getexpr st1)\<lparr>val := v\<rparr>\<rparr>)))
            else Inr (getExpr_default st)))"
| "getExprs 0 st = Inl OutOfFuel"
| "getExprs (Suc n) st =
     bindA (getExpr n st) (\<lambda>res. let symv = fst res; st1 = snd res in getExprs_loop n (val symv) (type symv) st1)"
| "getExprs_loop 0 v value_type st = Inl OutOfFuel"
| "getExprs_loop (Suc n) v value_type st =
     (let c = line_at st (lexstart st)
      in if isdone c then Inr (v, st)
         else if c = CHR '')'' \<or> c = CHR '']'' then Inr (v, st)
         else bindA (getExpr n st) (\<lambda>res. let symt = fst res; st1 = snd res in
              bindA (getExprs_combine v value_type symt st1) (\<lambda>res. let v1 = fst res; st2 = snd res in
                getExprs_loop n v1 value_type st2)))"

subsection \<open>Reading the source\<close>

text \<open>
  \<open>fgets( inpline, LINELEN - 1, infile )\<close> reads at most 94 characters, up to and
  including a newline.  It returns NULL when the file is exhausted.
\<close>

fun fgets :: "nat \<Rightarrow> string \<Rightarrow> string \<times> string" where
  "fgets 0 cs = ([], cs)"
| "fgets (Suc n) [] = ([], [])"
| "fgets (Suc n) (c # cs) =
     (if c = CHR 0x0A then ([c], cs) else (let res = fgets n cs in (c # fst res, snd res)))"

text \<open>Tabs become blanks up to the next multiple of eight.\<close>

fun expand_tabs :: "string \<Rightarrow> string \<Rightarrow> string" where
  "expand_tabs acc [] = acc"
| "expand_tabs acc (c # cs) =
     (if c = CHR 0x09 then expand_tabs (acc @ replicate (8 - length acc mod 8) CHR '' '') cs
      else expand_tabs (acc @ [c]) cs)"

text \<open>
  \<open>readLine\<close>.  A missing line is replaced by \<open>$\<close> with \<open>error_in_line\<close> set.  The
  test for a carriage return reads \<open>line[iy - 2]\<close>; for a line shorter than two
  characters that is outside the buffer, and the model takes the test as false.
\<close>

definition readLine :: "state \<Rightarrow> state" where
  "readLine st =
     (let eof = (infile st = []);
          got = (if eof then ([CHR ''$'', CHR 0x0A], []) else fgets 94 (infile st));
          inpline = fst got;
          rest = snd got;
          l0 = expand_tabs [] (takeWhile (\<lambda>c. c \<noteq> NUL) inpline);
          l1 = (if 2 \<le> length l0 \<and> l0 ! (length l0 - 2) = CHR 0x0D
                then take (length l0 - 2) l0 @ [last l0] else l0)
      in st\<lparr>infile := rest, line := l1, lineno := lineno st + 1,
            indirect_generated := False, cc := 0, lexstartprev := 0,
            error_in_line := eof, maxcc := int (length l1)\<rparr>)"

subsection \<open>Conditional assembly\<close>

definition conditionTrue :: "state \<Rightarrow> state" where
  "conditionTrue st =
     (if line_at st (lexstart st) = CHR ''<'' then nextLexeme st
      else errorMessage lt_expected (lexstart st) st)"

text \<open>The skipping loop of \<open>conditionFalse\<close>, bounded by fuel.\<close>

fun conditionFalse_loop :: "nat \<Rightarrow> int \<Rightarrow> state \<Rightarrow> abort + state" where
  "conditionFalse_loop 0 level st = Inl OutOfFuel"
| "conditionFalse_loop (Suc n) level st =
     (if level > 0 then
        (let c = line_at st (cc st)
         in if isend c then conditionFalse_loop n level (readLine st)
            else if c = CHR ''>'' then conditionFalse_loop n (level - 1) (st\<lparr>cc := cc st + 1\<rparr>)
            else if c = CHR ''<'' then conditionFalse_loop n (level + 1) (st\<lparr>cc := cc st + 1\<rparr>)
            else if c = CHR ''$'' then conditionFalse_loop n 0 (st\<lparr>cc := cc st + 1\<rparr>)
            else conditionFalse_loop n level (st\<lparr>cc := cc st + 1\<rparr>))
      else Inr st)"

definition conditionFalse :: "nat \<Rightarrow> state \<Rightarrow> abort + state" where
  "conditionFalse n st =
     (if line_at st (lexstart st) = CHR ''<''
      then bindA (conditionFalse_loop n 1 st) (\<lambda>st1. Inr (nextLexeme st1))
      else Inr (errorMessage lt_expected (lexstart st) st))"

subsection \<open>Pseudo-operators\<close>

text \<open>The table \<open>pseudo[]\<close>: names cut to six characters, values from \<open>enum pseudo_t\<close>.\<close>

definition pseudo :: "(string \<times> pseudo_t) list" where
  "pseudo =
     [(''BANK'', BANK), (''BINPUN'', BINPUNCH), (''DECIMA'', DECIMAL), (''DUBL'', DUBL),
      (''EJECT'', EJECT), (''ENPUNC'', ENPUNCH), (''EXPUNG'', EXPUNGE), (''FIELD'', FIELD),
      (''FIXMRI'', FIXMRI), (''FIXTAB'', FIXTAB), (''FLTG'', FLTG), (''IFDEF'', IFDEF),
      (''IFNDEF'', IFNDEF), (''IFNZER'', IFNZERO), (''IFZERO'', IFZERO), (''NOPUNC'', NOPUNCH),
      (''OCTAL'', OCTAL), (''PAGE'', PAGE), (''PAUSE'', PAUSE), (''RELOC'', RELOC),
      (''RIMPUN'', RIMPUNCH), (''SEGMNT'', SEGMNT), (''TEXT'', TEXT), (''TITLE'', TITLE),
      (''XLIST'', XLIST), (''ZBLOCK'', ZBLOCK)]"

fun pseudo_of_code :: "int \<Rightarrow> pseudo_t list \<Rightarrow> pseudo_t option" where
  "pseudo_of_code v [] = None"
| "pseudo_of_code v (p # ps) = (if v = 0 then Some p else pseudo_of_code (v - 1) ps)"

text \<open>Entering the directives into the symbol table (start-up and \<open>EXPUNGE\<close>).\<close>

fun install_pseudo :: "(string \<times> pseudo_t) list \<Rightarrow> state \<Rightarrow> abort + state" where
  "install_pseudo [] st = Inr st"
| "install_pseudo ((nm, p) # ps) st =
     bindA (defineSymbol nm (pseudo_code p) PSEUDO 0 st) (install_pseudo ps)"

definition case_EXPUNGE :: "state \<Rightarrow> abort + state" where
  "case_EXPUNGE st =
     (if pass st = 1 then
        bindA (install_pseudo pseudo (st\<lparr>symtab := [], number_of_fixed_symbols := 0\<rparr>))
          (\<lambda>st1. Inr (st1\<lparr>number_of_fixed_symbols := symbol_top st1\<rparr>))
      else Inr st)"

text \<open>
  The leader length of \<open>BINPUNCH\<close> and \<open>RIMPUNCH\<close>: 8 when the directive has no
  argument.
\<close>

definition leader_length :: "nat \<Rightarrow> state \<Rightarrow> abort + (int \<times> state)" where
  "leader_length n st =
     (if isdone (line_at st (lexstart st)) then Inr (8, st)
      else bindA (getExpr n st) (\<lambda>res. let s = fst res; st1 = snd res in Inr (val s, st1)))"

definition case_BINPUNCH :: "nat \<Rightarrow> state \<Rightarrow> abort + state" where
  "case_BINPUNCH n st =
     bindA (if binary_data_output st \<and> rim_mode st then
              bindA (leader_length n st) (\<lambda>res. let leaderlen = fst res; st1 = snd res in
                let st2 = st1\<lparr>cp := (cp st1)\<lparr>loc := 128, error := False\<rparr>,
                              pz := (pz st1)\<lparr>loc := 128, error := False\<rparr>\<rparr>;
                    st3 = punchLeader leaderlen st2
                in Inr (st3\<lparr>checksum := 0, binary_data_output := False\<rparr>))
            else Inr st)
       (\<lambda>st4. Inr (st4\<lparr>rim_mode := False\<rparr>))"

definition case_RIMPUNCH :: "nat \<Rightarrow> state \<Rightarrow> abort + state" where
  "case_RIMPUNCH n st =
     bindA (if binary_data_output st \<and> \<not> rim_mode st then
              bindA (leader_length n st) (\<lambda>res. let leaderlen = fst res; st1 = snd res in
              bindA (endOfBinary st1) (\<lambda>st2.
                let st3 = (if leaderlen \<noteq> -1 then punchChecksum st2 else st2)
                in Inr (punchLeader leaderlen st3)))
            else Inr st)
       (\<lambda>st4. Inr (st4\<lparr>rim_mode := True\<rparr>))"

text \<open>
  \<open>FIELD\<close>.  \<open>punch_field\<close> is the last branch of the directive: the field-select
  frame goes through \<open>punchObject\<close>, which adds it to the checksum, and is then
  subtracted again (\<open>checksum -= value\<close>).  \<open>192\<close> is \<open>0300\<close>.
\<close>

definition punch_field :: "int \<Rightarrow> state \<Rightarrow> state" where
  "punch_field newfield st =
     (let v = push_bit 3 (newfield AND 7) OR 192;
          st1 = punchObject v st
      in st1\<lparr>checksum := w16 (checksum st1 - v), field := w16 (push_bit 12 newfield)\<rparr>)"

definition case_FIELD :: "nat \<Rightarrow> state \<Rightarrow> abort + state" where
  "case_FIELD n st =
     bindA (punchLiteralPool CP (w16 (clc st - 1)) st) (\<lambda>st1.
     bindA (punchLiteralPool PZ 0 st1) (\<lambda>st2.
       let lexstartsave = lexstartprev st2
       in bindA (if isdone (line_at st2 (lexstart st2))
                 then Inr (w16 (drop_bit 12 (field st2) + 1), st2)
                 else bindA (getExpr n st2) (\<lambda>res. let s = fst res; st3 = snd res in Inr (val s, st3)))
            (\<lambda>res. let newfield = fst res; st4 = snd res in
               let st5 =
                     (if rim_mode st4 then errorMessage in_rim_mode lexstartsave st4
                      else if newfield > 7 \<or> newfield < 0
                        then errorMessage illegal_field_value (lexstartprev st4) st4
                      else punch_field newfield st4);
                   c = 128 OR field st5;
                   st7 = st5\<lparr>clc := c, fieldlc := c AND 4095\<rparr>
               in Inr (if \<not> rim_mode st7 then punchOrigin (clc st7) st7 else st7))))"

definition case_FIXMRI :: "nat \<Rightarrow> state \<Rightarrow> abort + state" where
  "case_FIXMRI n st =
     (if line_at st (lexterm st) = CHR ''='' \<and> isalpha (line_at st (lexstart st)) then
        (let lexstartsave = lexstart st;
             term = lexterm st
         in bindA (getExprs n (nextLexeme (nextLexeme st))) (\<lambda>res. let v = fst res; st1 = snd res in
              defineLexeme lexstartsave term v MRI st1))
      else
        bindA (getExprs n (nextLexeme (nextLexeme (errorLexeme symbol_syntax (lexstart st) st))))
          (\<lambda>res. let v = fst res; st1 = snd res in Inr st1))"

text \<open>
  \<open>FIXTAB\<close> re-sorts the table with \<open>qsort\<close> and \<open>compareSymbols\<close>; the model sorts
  by insertion.
\<close>

fun insert_sorted :: "sym_t \<Rightarrow> sym_t list \<Rightarrow> sym_t list" where
  "insert_sorted x [] = [x]"
| "insert_sorted x (y # ys) =
     (if strcmp (name x) (name y) \<le> 0 then x # y # ys else y # insert_sorted x ys)"

definition case_FIXTAB :: "state \<Rightarrow> state" where
  "case_FIXTAB st =
     st\<lparr>symtab := foldr insert_sorted (map (\<lambda>s. s\<lparr>type := type s OR FIXED\<rparr>) (symtab st)) [],
        number_of_fixed_symbols := symbol_top st\<rparr>"

text \<open>\<open>IFDEF\<close> and \<open>IFNDEF\<close>; \<open>negated\<close> swaps the two branches.\<close>

definition case_IFDEF :: "nat \<Rightarrow> bool \<Rightarrow> state \<Rightarrow> abort + state" where
  "case_IFDEF n negated st =
     (if isalpha (line_at st (lexstart st)) then
        bindA (evalSymbol st) (\<lambda>res. let ix = fst res; st1 = snd res in
          let sym = symtab_at (symtab st1) ix;
              st2 = nextLexeme st1
          in if M_DEFINED_CONDITIONALLY (pass st2) (type sym) \<noteq> negated
             then Inr (conditionTrue st2)
             else conditionFalse n st2)
      else Inr (errorLexeme label_syntax (lexstart st) st))"

text \<open>\<open>IFZERO\<close> and \<open>IFNZERO\<close>.\<close>

definition case_IFZERO :: "nat \<Rightarrow> bool \<Rightarrow> state \<Rightarrow> abort + state" where
  "case_IFZERO n negated st =
     bindA (getExpr n st) (\<lambda>res. let s = fst res; st1 = snd res in
       if (val s = 0) \<noteq> negated then Inr (conditionTrue st1) else conditionFalse n st1)"

text \<open>\<open>PAGE\<close>; \<open>32640\<close> is \<open>077600\<close> and \<open>31\<close> is \<open>037\<close>.\<close>

definition case_PAGE :: "nat \<Rightarrow> state \<Rightarrow> abort + state" where
  "case_PAGE n st =
     bindA (punchLiteralPool CP (w16 (clc st - 1)) st) (\<lambda>st1.
       let oldclc = clc st1
       in bindA (if isdone (line_at st1 (lexstart st1))
                 then Inr (w16 ((clc st1 + 127) AND 32640), st1)
                 else bindA (getExpr n st1) (\<lambda>res. let s = fst res; st2 = snd res in
                        Inr (w16 (push_bit 12 (field st2) + push_bit 7 (val s AND 31)), st2)))
            (\<lambda>res. let c = fst res; st3 = snd res in
               let st4 = st3\<lparr>clc := c, fieldlc := c AND 4095\<rparr>;
                   st5 = snd (testForLiteralCollision (clc st4) st4)
               in Inr (if \<not> rim_mode st5 \<and> clc st5 \<noteq> oldclc
                       then punchOrigin (clc st5) st5 else st5)))"

definition case_RELOC :: "nat \<Rightarrow> state \<Rightarrow> abort + state" where
  "case_RELOC n st =
     (if isdone (line_at st (lexstart st)) then Inr (st\<lparr>reloc := 0\<rparr>)
      else bindA (getExpr n st) (\<lambda>res. let s = fst res; st1 = snd res in
             Inr (st1\<lparr>reloc := w16 (val s - (clc st1 + reloc st1))\<rparr>)))"

text \<open>
  \<open>SEGMNT\<close>.  With an argument the source calls \<open>getExpr()\<close>, drops its result, and
  computes the new \<open>clc\<close> from \<open>val\<close>, the parameter of \<open>pseudoOperators\<close> (the code of
  the directive).  \<open>3072\<close> is \<open>06000\<close> and \<open>1024\<close> is \<open>02000\<close>.
\<close>

definition case_SEGMNT :: "nat \<Rightarrow> int \<Rightarrow> state \<Rightarrow> abort + state" where
  "case_SEGMNT n v st =
     bindA (punchLiteralPool CP (w16 (clc st - 1)) st) (\<lambda>st1.
     bindA (if isdone (line_at st1 (lexstart st1))
            then Inr (w16 ((clc st1 AND 3072) + 1024), st1)
            else bindA (getExpr n st1) (\<lambda>res. let s = fst res; st2 = snd res in Inr (w16 (push_bit 10 (v AND 3)), st2)))
       (\<lambda>res. let c = fst res; st3 = snd res in
          let st4 = st3\<lparr>clc := c, fieldlc := c AND 4095\<rparr>;
              st5 = (if \<not> rim_mode st4 then punchOrigin (clc st4) st4 else st4)
          in Inr (snd (testForLiteralCollision (clc st5) st5))))"

text \<open>
  The packing loop of \<open>TEXT\<close>, over the characters of the line from \<open>index\<close>; it
  returns \<open>count\<close>, \<open>pack\<close>, \<open>index\<close> and the state.
\<close>

function text_loop :: "string \<Rightarrow> char \<Rightarrow> int \<Rightarrow> int \<Rightarrow> int \<Rightarrow> state \<Rightarrow> int \<times> int \<times> int \<times> state" where
  "text_loop ln delim pack count index st =
     (if 0 \<le> index \<and> index < int (length ln) \<and> ln ! nat index \<noteq> delim \<and> \<not> isend (ln ! nat index) then
        (let pack1 = push_bit 6 pack OR (char_code (ln ! nat index) AND 63);
             count1 = count + 1
         in if count1 > 1
            then text_loop ln delim 0 0 (index + 1) (incrementClc (punchOutObject (clc st) pack1 st))
            else text_loop ln delim pack1 count1 (index + 1) st)
      else (count, pack, index, st))"
  by pat_completeness auto
termination
  by (relation "measure (\<lambda>(ln, delim, pack, count, index, st). nat (int (length ln) - index))") auto

declare text_loop.simps [simp del]

definition case_TEXT :: "state \<Rightarrow> state" where
  "case_TEXT st =
     (let delim = line_at st (lexstart st);
          res = text_loop (line st) delim 0 0 (lexstart st + 1) st;
          count = fst res;
          pack = fst (snd res);
          index = fst (snd (snd res));
          st1 = snd (snd (snd res));
          st2 = (if count \<noteq> 0
                 then incrementClc (punchOutObject (clc st1) (w16 (push_bit 6 pack)) st1)
                 else incrementClc (punchOutObject (clc st1) 0 st1));
          st3 = (if isend (line_at st2 index)
                 then errorMessage text_string index (st2\<lparr>cc := index, lexterm := index\<rparr>)
                 else st2\<lparr>cc := index + 1, lexterm := index + 1\<rparr>)
      in nextLexeme st3)"

text \<open>\<open>XLIST\<close> switches the listing; its argument is evaluated all the same.\<close>

definition case_XLIST :: "nat \<Rightarrow> state \<Rightarrow> abort + state" where
  "case_XLIST n st =
     (if isdone (line_at st (lexstart st)) then Inr st
      else bindA (getExpr n st) (\<lambda>res. let s = fst res; st1 = snd res in Inr st1))"

fun zblock_loop :: "nat \<Rightarrow> state \<Rightarrow> state" where
  "zblock_loop 0 st = st"
| "zblock_loop (Suc k) st = zblock_loop k (incrementClc (punchOutObject (clc st) 0 st))"

definition case_ZBLOCK :: "nat \<Rightarrow> state \<Rightarrow> abort + state" where
  "case_ZBLOCK n st =
     bindA (getExpr n st) (\<lambda>res. let s = fst res; st1 = snd res in
       let v = val s
       in if v < 0 then Inr (errorMessage zblock_too_small (lexstartprev st1) st1)
          else if v + (clc st1 AND 4095) - 1 > 4095
            then Inr (errorMessage zblock_too_large (lexstartprev st1) st1)
          else Inr (zblock_loop (nat v) st1))"

text \<open>
  \<open>pseudoOperators\<close>.  The result is \<open>status\<close>: whether the scan of the line goes on.
  The listing directives \<open>EJECT\<close> and \<open>PAUSE\<close> change no modelled variable.
\<close>

definition pseudoOperators :: "nat \<Rightarrow> int \<Rightarrow> state \<Rightarrow> abort + (bool \<times> state)" where
  "pseudoOperators n v st =
     (let continue = (\<lambda>r. bindA r (\<lambda>st1. Inr (True, st1)))
      in case pseudo_of_code v pseudo_order of
           None \<Rightarrow> Inr (True, st)
         | Some BANK \<Rightarrow> Inr (True, errorSymbol no_pseudo_op (lexstartprev st) st)
         | Some BINPUNCH \<Rightarrow> continue (case_BINPUNCH n st)
         | Some DECIMAL \<Rightarrow> Inr (True, st\<lparr>radix := 10\<rparr>)
         | Some DUBL \<Rightarrow> Inl (NotModelled DUBL)
         | Some EJECT \<Rightarrow> Inr (False, st)
         | Some ENPUNCH \<Rightarrow> Inr (True, if pass st = 2 then st\<lparr>objectfile := objectsave st\<rparr> else st)
         | Some EXPUNGE \<Rightarrow> continue (case_EXPUNGE st)
         | Some FIELD \<Rightarrow> continue (case_FIELD n st)
         | Some FIXMRI \<Rightarrow> continue (case_FIXMRI n st)
         | Some FIXTAB \<Rightarrow> Inr (True, case_FIXTAB st)
         | Some FLTG \<Rightarrow> Inl (NotModelled FLTG)
         | Some IFDEF \<Rightarrow> continue (case_IFDEF n False st)
         | Some IFNDEF \<Rightarrow> continue (case_IFDEF n True st)
         | Some IFNZERO \<Rightarrow> continue (case_IFZERO n True st)
         | Some IFZERO \<Rightarrow> continue (case_IFZERO n False st)
         | Some NOPUNCH \<Rightarrow> Inr (True, if pass st = 2 then st\<lparr>objectfile := False\<rparr> else st)
         | Some OCTAL \<Rightarrow> Inr (True, st\<lparr>radix := 8\<rparr>)
         | Some PAGE \<Rightarrow> continue (case_PAGE n st)
         | Some PAUSE \<Rightarrow> Inr (True, st)
         | Some RELOC \<Rightarrow> continue (case_RELOC n st)
         | Some RIMPUNCH \<Rightarrow> continue (case_RIMPUNCH n st)
         | Some SEGMNT \<Rightarrow> continue (case_SEGMNT n v st)
         | Some TEXT \<Rightarrow> Inr (True, case_TEXT st)
         | Some TITLE \<Rightarrow> Inl (NotModelled TITLE)
         | Some XLIST \<Rightarrow> continue (case_XLIST n st)
         | Some ZBLOCK \<Rightarrow> continue (case_ZBLOCK n st))"

subsection \<open>Pass driver\<close>

text \<open>
  The origin statement \<open>*expr\<close> of \<open>onePass\<close>: the new origin is taken only when no
  error has been flagged on the line.
\<close>

definition case_origin :: "nat \<Rightarrow> state \<Rightarrow> abort + state" where
  "case_origin n st =
     bindA (getExpr n (nextLexeme st)) (\<lambda>res. let s = fst res; st1 = snd res in
       let newclc = w16 ((val s AND 4095) OR field st1)
       in if \<not> error_in_line st1 then
            bindA (if (newclc AND 3968) \<noteq> (clc st1 AND 3968)
                   then punchLiteralPool CP (w16 (clc st1 - 1)) st1 else Inr st1)
              (\<lambda>st2.
                 let c = w16 (newclc - reloc st2);
                     st3 = st2\<lparr>clc := c, fieldlc := c AND 4095\<rparr>
                 in Inr (if \<not> rim_mode st3 then punchOrigin (clc st3) st3 else st3))
          else Inr st1)"

text \<open>The label statement \<open>name,\<close>.\<close>

definition case_label :: "state \<Rightarrow> abort + state" where
  "case_label st =
     bindA (if isalpha (line_at st (lexstart st)) then
              bindA (lookup (lexemeToName st (lexstart st) (lexterm st)) st) (\<lambda>res. let ix = fst res; st1 = snd res in
                let sym = symtab_at (symtab st1) ix;
                    st2 = (if M_DEFINED (type sym) then
                             (let st3 = (if val sym \<noteq> clc st1 \<and> pass st1 = 2
                                         then errorSymbol duplicate_label (lexstart st1) st1
                                         else st1)
                              in st3\<lparr>symtab := (symtab st3)[nat ix := sym\<lparr>type := type sym OR DUPLICATE\<rparr>]\<rparr>)
                           else st1)
                in defineLexeme (lexstart st2) (lexterm st2) (w16 (clc st2 + reloc st2)) LABEL st2)
            else Inr (errorLexeme label_syntax (lexstart st) st))
       (\<lambda>st4. Inr (nextLexeme (nextLexeme st4)))"

text \<open>The assignment statement \<open>name=exprs\<close>.\<close>

definition case_assign :: "nat \<Rightarrow> state \<Rightarrow> abort + state" where
  "case_assign n st =
     (if isalpha (line_at st (lexstart st)) then
        (let start = lexstart st;
             term = lexterm st;
             st1 = st\<lparr>delimiter := line_at st (lexterm st)\<rparr>
         in bindA (getExprs n (nextLexBlank (nextLexBlank st1))) (\<lambda>res. let v = fst res; st2 = snd res in
              defineLexeme start term v DEFINED st2))
      else
        bindA (getExprs n (nextLexeme (nextLexeme (errorLexeme symbol_syntax (lexstartprev st) st))))
          (\<lambda>res. let v = fst res; st1 = snd res in Inr st1))"

text \<open>A word of code: \<open>punchOutObject( clc, getExprs() & 07777 ); incrementClc();\<close>\<close>

definition case_value :: "nat \<Rightarrow> state \<Rightarrow> abort + state" where
  "case_value n st =
     bindA (getExprs n st) (\<lambda>res. let v = fst res; st1 = snd res in
       Inr (incrementClc (punchOutObject (clc st1) (v AND 4095) st1)))"

datatype scan = Scanning | NextLine | Finished

text \<open>
  One round of the loop \<open>while( scanning_line )\<close>: what is done for the lexeme at
  \<open>lexstart\<close>.  \<open>Finished\<close> is the \<open>return\<close> after \<open>$\<close>.
\<close>

definition statement :: "nat \<Rightarrow> state \<Rightarrow> abort + (scan \<times> state)" where
  "statement n st =
     (let c = line_at st (lexstart st);
          scanning = (\<lambda>r. bindA r (\<lambda>st1. Inr (Scanning, st1)))
      in if isend c then Inr (NextLine, st)
         else if c = CHR ''/'' then Inr (NextLine, st)
         else if c = CHR '';'' then Inr (Scanning, nextLexeme st)
         else if c = CHR ''$'' then bindA (endOfBinary st) (\<lambda>st1. Inr (Finished, st1))
         else if c = CHR ''*'' then scanning (case_origin n st)
         else if line_at st (lexterm st) = CHR '','' then scanning (case_label st)
         else if line_at st (lexterm st) = CHR ''='' then scanning (case_assign n st)
         else if isalpha c then
           bindA (evalSymbol st) (\<lambda>res. let ix = fst res; st1 = snd res in
             let sym = symtab_at (symtab st1) ix
             in if M_PSEUDO (type sym) then
                  bindA (pseudoOperators n (val sym AND 4095) (nextLexeme st1)) (\<lambda>res. let status = fst res; st2 = snd res in
                    Inr (if status then Scanning else NextLine, st2))
                else scanning (case_value n st1))
         else scanning (case_value n st))"

text \<open>The two nested loops of \<open>onePass\<close>, bounded by fuel.\<close>

fun onePass_lines :: "nat \<Rightarrow> state \<Rightarrow> abort + state"
  and onePass_scan :: "nat \<Rightarrow> state \<Rightarrow> abort + state"
where
  "onePass_lines 0 st = Inl OutOfFuel"
| "onePass_lines (Suc n) st = onePass_scan n (nextLexeme (readLine st))"
| "onePass_scan 0 st = Inl OutOfFuel"
| "onePass_scan (Suc n) st =
     bindA (statement n st) (\<lambda>res. let r = fst res; st1 = snd res in
       case r of Scanning \<Rightarrow> onePass_scan n st1
               | NextLine \<Rightarrow> onePass_lines n st1
               | Finished \<Rightarrow> Inr st1)"

text \<open>\<open>onePass\<close>: the initial values, then the loop.\<close>

definition onePass :: "nat \<Rightarrow> state \<Rightarrow> abort + state" where
  "onePass n st =
     onePass_lines n
       (st\<lparr>clc := 128, field := 0, fieldlc := 0, reloc := 0,
           cp := (cp st)\<lparr>loc := 128, error := False\<rparr>,
           pz := (pz st)\<lparr>loc := 128, error := False\<rparr>,
           lineno := 0, last_xref_lexstart := 0, last_xref_lineno := 0, radix := 8\<rparr>)"

subsection \<open>Program start\<close>

text \<open>
  The table \<open>permanent_symbols[]\<close> (type, name, value), in the order of the source.
\<close>

definition permanent_symbols :: "(int \<times> string \<times> int) list" where
  "permanent_symbols =
     [(MRIFIX, ''AND'', 0), (MRIFIX, ''TAD'', 512), (MRIFIX, ''ISZ'', 1024),
      (MRIFIX, ''DCA'', 1536), (MRIFIX, ''I'', 256), (MRIFIX, ''JMP'', 2560),
      (MRIFIX, ''JMS'', 2048), (MRIFIX, ''Z'', 0), (MRIFIX, ''FEXT'', 0),
      (MRIFIX, ''FADD'', 512), (MRIFIX, ''FSUB'', 1024), (MRIFIX, ''FMPY'', 1536),
      (MRIFIX, ''FDIV'', 2048), (MRIFIX, ''FGET'', 2560), (MRIFIX, ''FPUT'', 3072),
      (FIXED, ''FNOR'', 3584), (FIXED, ''FEXT'', 0), (FIXED, ''SQUARE'', 1),
      (FIXED, ''SQROOT'', 2), (FIXED, ''NOP'', 3584), (FIXED, ''IAC'', 3585),
      (FIXED, ''RAL'', 3588), (FIXED, ''RTL'', 3590), (FIXED, ''RAR'', 3592),
      (FIXED, ''RTR'', 3594), (FIXED, ''CML'', 3600), (FIXED, ''CMA'', 3616),
      (FIXED, ''CLL'', 3648), (FIXED, ''CLA'', 3712), (FIXED, ''BSW'', 3586),
      (FIXED, ''HLT'', 3842), (FIXED, ''OSR'', 3844), (FIXED, ''SKP'', 3848),
      (FIXED, ''SNL'', 3856), (FIXED, ''SZL'', 3864), (FIXED, ''SZA'', 3872),
      (FIXED, ''SNA'', 3880), (FIXED, ''SMA'', 3904), (FIXED, ''SPA'', 3912),
      (FIXED, ''CIA'', 3617), (FIXED, ''STL'', 3664), (FIXED, ''GLK'', 3716),
      (FIXED, ''STA'', 3744), (FIXED, ''LAS'', 3972), (FIXED, ''MQL'', 3857),
      (FIXED, ''MQA'', 3905), (FIXED, ''SWP'', 3921), (FIXED, ''ACL'', 4033),
      (FIXED, ''IOT'', 3072), (FIXED, ''ION'', 3073), (FIXED, ''IOF'', 3074),
      (FIXED, ''SKON'', 3072), (FIXED, ''SRQ'', 3075), (FIXED, ''GTF'', 3076),
      (FIXED, ''RTF'', 3077), (FIXED, ''SGT'', 3078), (FIXED, ''CAF'', 3079),
      (FIXED, ''KSF'', 3097), (FIXED, ''KCC'', 3098), (FIXED, ''KRS'', 3100),
      (FIXED, ''KRB'', 3102), (FIXED, ''TSF'', 3105), (FIXED, ''TCF'', 3106),
      (FIXED, ''TPC'', 3108), (FIXED, ''TLS'', 3110), (FIXED, ''RSF'', 3081),
      (FIXED, ''RRB'', 3082), (FIXED, ''RFC'', 3084), (FIXED, ''RPE'', 3080),
      (FIXED, ''PCE'', 3088), (FIXED, ''RCC'', 3086), (FIXED, ''PSF'', 3089),
      (FIXED, ''PCF'', 3090), (FIXED, ''PPC'', 3092), (FIXED, ''PLS'', 3094),
      (FIXED, ''DTRA'', 3569), (FIXED, ''DTCA'', 3570), (FIXED, ''DTXA'', 3572),
      (FIXED, ''DTLA'', 3574), (FIXED, ''DTSF'', 3577), (FIXED, ''DTRB'', 3578),
      (FIXED, ''DTLB'', 3580), (FIXED, ''DCMA'', 3457), (FIXED, ''DMAR'', 3459),
      (FIXED, ''DMAW'', 3461), (FIXED, ''DCEA'', 3465), (FIXED, ''DSAC'', 3466),
      (FIXED, ''DEAL'', 3469), (FIXED, ''DEAC'', 3470), (FIXED, ''DFSE'', 3473),
      (FIXED, ''DFSC'', 3474), (FIXED, ''DMAC'', 3478), (FIXED, ''DCIM'', 3465),
      (FIXED, ''DIML'', 3469), (FIXED, ''DIMA'', 3470), (FIXED, ''DISK'', 3475),
      (FIXED, ''DCXA'', 3489), (FIXED, ''DXAL'', 3491), (FIXED, ''DXAC'', 3493),
      (FIXED, ''DMMT'', 3494), (FIXED, ''CDF'', 3201), (FIXED, ''CIF'', 3202),
      (FIXED, ''CDI'', 3203), (FIXED, ''RDF'', 3212), (FIXED, ''RIF'', 3220),
      (FIXED, ''RIB'', 3228), (FIXED, ''RMF'', 3220), (FIXED, ''SMP'', 3137),
      (FIXED, ''CMP'', 3140), (FIXED, ''DPI'', 3136), (FIXED, ''SNP'', 3137),
      (FIXED, ''EPI'', 3139), (FIXED, ''CNP'', 3140), (FIXED, ''CEP'', 3142),
      (FIXED, ''SPO'', 3143), (FIXED, ''TTINCR'', 3329), (FIXED, ''TTI'', 3330),
      (FIXED, ''TTO'', 3332), (FIXED, ''TTCL'', 3337), (FIXED, ''TTSL'', 3338),
      (FIXED, ''TTRL'', 3340), (FIXED, ''TTSKP'', 3345), (FIXED, ''TTXON'', 3348),
      (FIXED, ''TTXOF'', 3346)]"

text \<open>Static storage is zero at start.\<close>

definition zero_state :: state where
  "zero_state =
     \<lparr>pass = 0, infile = [], line = [], lineno = 0, cc = 0, maxcc = 0,
      lexstart = 0, lexterm = 0, lexstartprev = 0, lextermprev = 0, delimiter = NUL,
      clc = 0, field = 0, fieldlc = 0, reloc = 0, radix = 0, checksum = 0,
      binary_data_output = False, rim_mode = False, literals_on = False,
      error_in_line = False, indirect_generated = False, errors = 0, errorfile_log = [],
      cp = \<lparr>error = False, loc = 0, pool = replicate 128 0\<rparr>,
      pz = \<lparr>error = False, loc = 0, pool = replicate 128 0\<rparr>,
      symtab = [], number_of_fixed_symbols = 0,
      sym_getexpr = sym_eval 0,
      xref = False, xreftab = (\<lambda>i. 0), last_xref_lexstart = 0, last_xref_lineno = 0,
      objectfile = False, objectsave = False, object_bytes = []\<rparr>"

fun install_permanent :: "(int \<times> string \<times> int) list \<Rightarrow> state \<Rightarrow> abort + state" where
  "install_permanent [] st = Inr st"
| "install_permanent ((ty, nm, v) # ps) st =
     bindA (defineSymbol nm v (ty OR DEFFIX) 0 st) (install_permanent ps)"

text \<open>
  \<open>main\<close> up to the first pass: the options \<open>-l\<close>, \<open>-r\<close> and \<open>-x\<close>, the source text,
  and the symbol table filled with the directives and the permanent symbols.  The
  list of permanent symbols is a parameter; the program passes \<open>permanent_symbols\<close>.
\<close>

definition main_start ::
  "(int \<times> string \<times> int) list \<Rightarrow> bool \<Rightarrow> bool \<Rightarrow> bool \<Rightarrow> string \<Rightarrow> abort + state" where
  "main_start perm opt_l opt_r opt_x source =
     bindA (install_pseudo pseudo
              (zero_state\<lparr>literals_on := opt_l, rim_mode := opt_r, xref := opt_x,
                          infile := source\<rparr>)) (\<lambda>st1.
     bindA (install_permanent perm st1) (\<lambda>st2.
       Inr (st2\<lparr>number_of_fixed_symbols := symbol_top st2, checksum := 0, pass := 1\<rparr>)))"

text \<open>The cross-reference indices given out between the passes.\<close>

fun assign_xref :: "int \<Rightarrow> sym_t list \<Rightarrow> sym_t list" where
  "assign_xref space [] = []"
| "assign_xref space (s # ss) =
     s\<lparr>xref_index := space, xref_count := 0\<rparr> # assign_xref (space + xref_count s + 1) ss"

definition main_between :: "string \<Rightarrow> state \<Rightarrow> state" where
  "main_between source st =
     (let st1 = punchLeader 0 (st\<lparr>infile := source, objectfile := True, objectsave := True\<rparr>);
          st2 = st1\<lparr>checksum := 0, errors := 0\<rparr>;
          st3 = (if xref st2
                 then st2\<lparr>symtab := assign_xref 0 (symtab st2), xreftab := (\<lambda>i. 0)\<rparr>
                 else st2)
      in st3\<lparr>pass := 2\<rparr>)"

definition main_finish :: "state \<Rightarrow> state" where
  "main_finish st = punchLeader 1 (punchChecksum (st\<lparr>objectfile := objectsave st\<rparr>))"

definition assemble ::
  "nat \<Rightarrow> (int \<times> string \<times> int) list \<Rightarrow> bool \<Rightarrow> bool \<Rightarrow> bool \<Rightarrow> string \<Rightarrow> abort + state" where
  "assemble n perm opt_l opt_r opt_x source =
     bindA (main_start perm opt_l opt_r opt_x source) (\<lambda>st0.
     bindA (onePass n st0) (\<lambda>st1.
     bindA (onePass n (main_between source st1)) (\<lambda>st2.
       Inr (main_finish st2))))"

subsection \<open>Vocabulary of the properties\<close>

text \<open>The frames written to the object file between two states.\<close>

definition frames_written :: "state \<Rightarrow> state \<Rightarrow> int list" where
  "frames_written st st' = drop (length (object_bytes st)) (object_bytes st')"

text \<open>
  Everything the assembler punches between two resets of the checksum is a sequence
  of three operations: an origin (\<open>punchOrigin\<close>), a word of data (\<open>punchLocObject\<close>)
  and the field-select frame of \<open>FIELD\<close> (\<open>punch_field\<close>).  No other code writes
  \<open>checksum\<close>, apart from the resets.
\<close>

datatype punch = Origin int | Word int int | FieldSelect int



text \<open>The frames of each operation in BIN mode.\<close>

fun frames :: "punch \<Rightarrow> int list" where
  "frames (Origin l) = [((drop_bit 6 l AND 63) OR 64) AND 255, (l AND 63) AND 255]"
| "frames (Word l v) = [(drop_bit 6 v AND 63) AND 255, (v AND 63) AND 255]"
| "frames (FieldSelect f) = [push_bit 3 (f AND 7) OR 192]"



text \<open>
  The example runs start the assembler with three of the permanent symbols, so that
  the symbol table stays small.
\<close>

definition demo_symbols :: "(int \<times> string \<times> int) list" where
  "demo_symbols = [(MRIFIX, ''TAD'', 512), (FIXED, ''CLA'', 3712), (FIXED, ''CMA'', 3616)]"

text \<open>
  What the evaluation of an expression leaves alone: the location counter, the
  relocation, the output mode, the object file and the checksum.  It may add literals
  to the pools, so \<open>loc\<close> may go down; a flush would set it back to \<open>0200\<close>.
\<close>

definition same_output :: "state \<Rightarrow> state \<Rightarrow> bool" where
  "same_output st st' =
     (clc st' = clc st \<and> fieldlc st' = fieldlc st \<and> field st' = field st \<and> reloc st' = reloc st
      \<and> rim_mode st' = rim_mode st \<and> objectfile st' = objectfile st
      \<and> object_bytes st' = object_bytes st \<and> checksum st' = checksum st
      \<and> binary_data_output st' = binary_data_output st
      \<and> loc (cp st') \<le> loc (cp st) \<and> loc (pz st') \<le> loc (pz st))"

text \<open>The location counter after \<open>incrementClc\<close>.\<close>

definition next_clc :: "int \<Rightarrow> int" where
  "next_clc c = w16 ((c AND 28672) + ((c + 1) AND 4095))"

text \<open>
  The state of pass 2 after the line \<open>*=\<close> has been read and its first lexeme, the
  \<open>*\<close>, has been scanned.
\<close>

definition origin_error_state :: state where
  "origin_error_state =
     nextLexeme (readLine (zero_state\<lparr>pass := 2, infile := ''*=\<newline>'', clc := 128, radix := 8,
                                       objectfile := True\<rparr>))"

text \<open>A user symbol \<open>A\<close> of a given type and value, for the examples of \<open>defineSymbol\<close>.\<close>

definition sym_A :: "int \<Rightarrow> int \<Rightarrow> sym_t" where
  "sym_A t v = \<lparr>type = t, name = ''A'', val = v, xref_index = 0, xref_count = 0\<rparr>"

text \<open>
  The state inside \<open>getExpr\<close> on the line \<open>6%0\<close> after the first term: the lexeme is
  the operator \<open>%\<close> and the holder \<open>sym_getexpr\<close> has the value 6.
\<close>

definition division_state :: state where
  "division_state =
     (let r = projr (eval 5 (nextLexeme (readLine
                (zero_state\<lparr>pass := 2, infile := ''6%0\<newline>'', radix := 8\<rparr>))))
      in (snd r)\<lparr>sym_getexpr := fst r\<rparr>)"

text \<open>The literals a pool holds: \<open>pool[loc .. 127]\<close>.\<close>

definition pool_entries :: "lpool_t \<Rightarrow> int list" where
  "pool_entries p = drop (nat (loc p)) (pool p)"

text \<open>
  \<open>insertLiteral\<close> with the store to \<open>pool[-1]\<close> resolved instead of stopped.  In
  \<open>struct lpool_t\<close> the member \<open>loc\<close> is declared just before \<open>pool\<close> and has the type
  of its elements, so the element before the first is \<open>loc\<close> itself:
  \<open>p->pool[p->loc] = value\<close> with \<open>loc = -1\<close> overwrites \<open>loc\<close> with the value, and
  \<open>ix = p->loc\<close> returns it.  Every other case is as in \<open>insertLiteral\<close>.
\<close>

definition insertLiteral_layout :: "lpool_ref \<Rightarrow> int \<Rightarrow> state \<Rightarrow> abort + (int \<times> state)" where
  "insertLiteral_layout r v st =
     (let r1 = (if clc st AND 3968 = 0 then PZ else r);
          p = get_pool r1 st
      in bindA (search_pool p v 127) (\<lambda>ix.
           if ix < loc p then
             (let l = w16 (loc p - 1)
              in if l = - 1 then Inr (v, set_pool r1 (p\<lparr>loc := v\<rparr>) st)
                 else if l < 0 \<or> l \<ge> 128 then Inl (PoolIndexOutOfRange l)
                 else Inr (l, set_pool r1 (p\<lparr>loc := l, pool := (pool p)[nat l := v]\<rparr>) st))
           else Inr (ix, st)))"

section \<open>Running the model on concrete input\<close>

text \<open>
  The simplifier evaluates the model on a concrete state when it is told to work
  from the inside out: the congruence rules below keep it from entering the branches
  of a conditional, the continuation of \<open>bindA\<close> or the body of a \<open>let\<close> before the
  value that decides them is known.
\<close>

lemma bindA_weak_cong: "m = m' \<Longrightarrow> bindA m f = bindA m' f"
  by simp

lemmas cbv_congs =
  bindA_weak_cong let_weak_cong if_weak_cong
  option.case_cong_weak sum.case_cong_weak scan.case_cong_weak pseudo_t.case_cong_weak
  lpool_ref.case_cong_weak list.case_cong_weak

text \<open>One round of each fuel-bounded function, for fuel written as a numeral.\<close>

lemma eval_fuel: "0 < n \<Longrightarrow> eval n st = eval (Suc (n - 1)) st"
  by simp

lemma getExpr_fuel: "0 < n \<Longrightarrow> getExpr n st = getExpr (Suc (n - 1)) st"
  by simp

lemma getExpr_loop_fuel: "0 < n \<Longrightarrow> getExpr_loop n st = getExpr_loop (Suc (n - 1)) st"
  by simp

lemma getExprs_fuel: "0 < n \<Longrightarrow> getExprs n st = getExprs (Suc (n - 1)) st"
  by simp

lemma getExprs_loop_fuel:
  "0 < n \<Longrightarrow> getExprs_loop n v t st = getExprs_loop (Suc (n - 1)) v t st"
  by simp

lemma conditionFalse_loop_fuel:
  "0 < n \<Longrightarrow> conditionFalse_loop n l st = conditionFalse_loop (Suc (n - 1)) l st"
  by simp

lemma onePass_lines_fuel: "0 < n \<Longrightarrow> onePass_lines n st = onePass_lines (Suc (n - 1)) st"
  by simp

lemma onePass_scan_fuel: "0 < n \<Longrightarrow> onePass_scan n st = onePass_scan (Suc (n - 1)) st"
  by simp

lemma fgets_unfold:
  "fgets n [] = ([], [])"
  "0 < n \<Longrightarrow> fgets n (c # cs) =
     (if c = CHR 0x0A then ([c], cs) else (let res = fgets (n - 1) cs in (c # fst res, snd res)))"
  by (cases n; simp)+

lemma zblock_loop_unfold:
  "0 < k \<Longrightarrow> zblock_loop k st = zblock_loop (k - 1) (incrementClc (punchOutObject (clc st) 0 st))"
  by (cases k) simp_all

lemmas fuel_unfold =
  eval_fuel[unfolded eval.simps] getExpr_fuel[unfolded getExpr.simps]
  getExpr_loop_fuel[unfolded getExpr_loop.simps] getExprs_fuel[unfolded getExprs.simps]
  getExprs_loop_fuel[unfolded getExprs_loop.simps]
  conditionFalse_loop_fuel[unfolded conditionFalse_loop.simps]
  onePass_lines_fuel[unfolded onePass_lines.simps] onePass_scan_fuel[unfolded onePass_scan.simps]
  fgets_unfold zblock_loop_unfold

lemmas char_defs =
  isdone_def isend_def is_blank_def toupper_def isalnum_def isalpha_def isdigit_def
  NUL_def char_code_def

lemmas type_defs =
  M_DEFINED_CONDITIONALLY_def M_DEF_def M_COND_def
  M_CONDITIONAL_def M_DEFINED_def M_DUPLICATE_def M_FIXED_def M_LABEL_def M_MRI_def
  M_PSEUDO_def M_REDEFINED_def M_UNDEFINED_def symtyp_defs

lemmas lexer_defs =
  lexemeToName_def nextLexBlank_def nextLexeme_def moveToEndOfLine_def
  errorLexeme_def errorMessage_def errorSymbol_def line_at_def
  lexemeToName_loop.simps skip_while.simps

lemmas symtab_defs =
  defineLexeme_def defineSymbol_def evalSymbol_def lookup_def binarySearch_def
  symbol_top_def symtab_at_def sym_undefined_def binarySearch_loop.simps

lemmas punch_defs =
  punchChecksum_def punchLeader_def punchOutObject_def punchLocObject_def
  punchOrigin_def punchObject_def

lemmas pool_defs =
  endOfBinary_def incrementClc_def testForLiteralCollision_def punchLiteralPool_def
  insertLiteral_def set_pool_def get_pool_def punch_pool_loop.simps search_pool.simps

lemmas expr_defs =
  getExprs_combine_def getExpr_default_def is_operator_def apply_operator_def
  eval_illegal_def eval_dot_def eval_quote_def eval_identifier_def sym_eval_def
  eval_number.simps c_div_def w16_def

lemmas pseudo_defs =
  pseudoOperators_def case_ZBLOCK_def case_XLIST_def case_TEXT_def case_SEGMNT_def
  case_RELOC_def case_PAGE_def case_IFZERO_def case_IFDEF_def case_FIXTAB_def
  case_FIXMRI_def case_FIELD_def punch_field_def case_RIMPUNCH_def case_BINPUNCH_def leader_length_def
  case_EXPUNGE_def conditionFalse_def conditionTrue_def text_loop.simps
  pseudo_def pseudo_code_def pseudo_order_def

lemmas pass_defs =
  assemble_def main_start_def main_between_def main_finish_def onePass_def statement_def
  case_value_def case_assign_def case_label_def case_origin_def readLine_def zero_state_def

lemmas run_defs =
  pass_defs pseudo_defs expr_defs pool_defs punch_defs symtab_defs lexer_defs type_defs
  char_defs fuel_unfold Let_def

section \<open>Properties\<close>

subsection \<open>Arithmetic of frames and checksums\<close>


lemma w16_w16_diff: "w16 (w16 a - b) = w16 (a - b)"
  by (simp add: w16_def mod_simps algebra_simps)

lemma w16_add_cancel: "w16 (w16 (a + b) - b) = w16 a"
  by (simp add: w16_w16_diff)









subsection \<open>Object encoder and checksum\<close>



















subsection \<open>Conditional assembly\<close>

text \<open>
  Claim C1 says that the predicate of \<open>IFDEF S\<close> and \<open>IFNDEF S\<close> has the same truth
  value in pass 1 and in pass 2.  The macro \<open>M_DEFINED_CONDITIONALLY\<close> of the source
  tests \<open>DEFINED\<close> in pass 1 and its negation in pass 2 (\<open>M_COND\<close> expands to
  \<open>M_DEFINED\<close>, not to \<open>M_CONDITIONAL\<close>): for one and the same symbol type the two
  passes always disagree.  A symbol that is never defined has type \<open>UNDEFINED\<close> in
  both passes, so \<open>IFDEF\<close> skips its block in pass 1 and assembles it in pass 2.
\<close>

theorem C1_predicate_differs_between_passes:
  "M_DEFINED_CONDITIONALLY 1 t \<noteq> M_DEFINED_CONDITIONALLY 2 t
   \<and> \<not> M_DEFINED_CONDITIONALLY 1 UNDEFINED \<and> M_DEFINED_CONDITIONALLY 2 UNDEFINED"
  by (simp add: M_DEFINED_CONDITIONALLY_def M_DEF_def M_COND_def M_DEFINED_def symtyp_defs)

subsection \<open>Literal pools\<close>

lemma insertLiteral_layout_agrees:
  "insertLiteral r v st = Inr x \<Longrightarrow> insertLiteral_layout r v st = Inr x"
  by (auto simp: insertLiteral_def insertLiteral_layout_def Let_def bindA_Inr_iff
           split: if_splits)

text \<open>
  Claim C8 says that \<open>loc\<close> stays within \<open>0 .. 128\<close> after every operation on a pool.
  \<open>insertLiteral\<close> has no test for a full pool: with \<open>loc = 0\<close> and a value that is
  not in the pool it decrements \<open>loc\<close> to \<open>-1\<close> and stores to \<open>pool[-1]\<close>, outside the
  array.  The pool below is the current-page pool after the literals
  \<open>0177, 0176, ..., 0\<close> have been inserted in this order; the next literal is \<open>0201\<close>.
  The model stops at the store.  With the store resolved by the layout of
  \<open>struct lpool_t\<close> it lands on \<open>loc\<close>, and the call returns with \<open>loc = 0201\<close>, which is
  129: above the bound of the claim.
\<close>

theorem C8_insertLiteral_full_pool:
  "insertLiteral CP 129
     (zero_state\<lparr>clc := 128, cp := \<lparr>error = False, loc = 0, pool = map int [0..<128]\<rparr>\<rparr>)
   = Inl (PoolIndexOutOfRange (-1))
   \<and> (case insertLiteral_layout CP 129
             (zero_state\<lparr>clc := 128,
                cp := \<lparr>error = False, loc = 0, pool = map int [0..<128]\<rparr>\<rparr>) of
         Inl e \<Rightarrow> False
       | Inr res \<Rightarrow> fst res = 129 \<and> loc (cp (snd res)) = 129 \<and> \<not> loc (cp (snd res)) \<le> 128)"
  by (simp add: run_defs insertLiteral_layout_def split del: if_split cong: cbv_congs)

subsection \<open>Directives\<close>

text \<open>
  Claim C4 says that \<open>SEGMNT n\<close> sets \<open>clc\<close> to \<open>(n & 3) << 10\<close>.  The source evaluates
  the argument with \<open>getExpr()\<close>, drops the result and computes
  \<open>( val & 003 ) << 10\<close> from \<open>val\<close>, the parameter of \<open>pseudoOperators\<close>, which is the
  code of the directive (\<open>SEGMNT\<close> is number 21 of \<open>PSEUDO_T\<close>).  So every \<open>SEGMNT\<close> with
  an argument sets the origin \<open>02000\<close>.  The run below assembles \<open>SEGMNT 2\<close> and \<open>CLA\<close>:
  the origin frames are \<open>0120, 0\<close> (location \<open>02000\<close>), not \<open>0140, 0\<close> (location
  \<open>04000\<close>), and \<open>clc\<close> ends at \<open>02001\<close>.
\<close>

theorem C4_SEGMNT_ignores_argument:
  "(case assemble 40 demo_symbols False False False ''SEGMNT 2\<newline>CLA\<newline>$\<newline>'' of
      Inl e \<Rightarrow> False
    | Inr st \<Rightarrow> drop 240 (object_bytes st) = [80, 0, 58, 0, 2, 10, 128] \<and> clc st = 1025)
   \<and> push_bit 10 (pseudo_code SEGMNT AND 3) = (1024::int)
   \<and> push_bit 10 (2 AND 3) = (2048::int)"
  by (simp add: run_defs demo_symbols_def split del: if_split cong: cbv_congs)

text \<open>
  Claim C6 says that \<open>TEXT /AB/\<close> emits exactly one word, \<open>0102\<close>.  After the packing
  loop the source punches one more word in either case: the half-filled word when a
  character is left over, and a word \<open>0\<close> when the characters came out even.  So a
  string of even length is followed by a zero word.  The run below assembles
  \<open>TEXT /AB/\<close>: the data frames are \<open>01, 02\<close> and \<open>0, 0\<close>, then the checksum \<open>03\<close> and the
  trailer, and \<open>clc\<close> has moved from \<open>0200\<close> to \<open>0202\<close>.
\<close>

theorem C6_counterexample:
  "(case assemble 40 demo_symbols False False False ''TEXT /AB/\<newline>$\<newline>'' of
      Inl e \<Rightarrow> False
    | Inr st \<Rightarrow> drop 240 (object_bytes st) = [1, 2, 0, 0, 0, 3, 128] \<and> clc st = 130)"
  by (simp add: run_defs demo_symbols_def split del: if_split cong: cbv_congs)

lemma nextLexeme_output:
  "object_bytes (nextLexeme st) = object_bytes st"
  "clc (nextLexeme st) = clc st"
  by (simp_all add: nextLexeme_def Let_def errorMessage_def errorSymbol_def)

lemma errorMessage_output:
  "object_bytes (errorMessage m c st) = object_bytes st"
  "clc (errorMessage m c st) = clc st"
  by (simp_all add: errorMessage_def errorSymbol_def Let_def)

lemma incrementClc_props:
  "object_bytes (incrementClc st) = object_bytes st"
  "objectfile (incrementClc st) = objectfile st"
  "rim_mode (incrementClc st) = rim_mode st"
  "line (incrementClc st) = line st"
  "clc (incrementClc st) = next_clc (clc st)"
  by (simp_all add: incrementClc_def testForLiteralCollision_def Let_def errorMessage_def
        errorSymbol_def next_clc_def)

lemma punchOutObject_props:
  "\<not> rim_mode st \<Longrightarrow> objectfile st \<Longrightarrow> object_bytes (punchOutObject l v st)
     = object_bytes st @ [(drop_bit 6 v AND 63) AND 255, (v AND 63) AND 255]"
  "objectfile (punchOutObject l v st) = objectfile st"
  "rim_mode (punchOutObject l v st) = rim_mode st"
  "line (punchOutObject l v st) = line st"
  "clc (punchOutObject l v st) = clc st"
  by (simp_all add: punchOutObject_def punchLocObject_def punchOrigin_def punchObject_def Let_def)

text \<open>
  C6 as amended: the statement \<open>TEXT /AB/\<close> emits two words, \<open>0102\<close> at the current
  location and \<open>0000\<close> at the next one, and moves the location counter on by two.  The
  state is the one in which \<open>pseudoOperators\<close> runs the directive: the lexeme at
  \<open>lexstart\<close> is the delimiter.  It is stated for BIN mode with the object file open,
  where each word is two frames.
\<close>

theorem C6_TEXT_AB_two_words:
  assumes "line st = ''TEXT /AB/\<newline>''" and "lexstart st = 5"
    and "objectfile st" and "\<not> rim_mode st"
  shows "pseudoOperators n (pseudo_code TEXT) st = Inr (True, case_TEXT st)
         \<and> frames_written st (case_TEXT st) = frames (Word (clc st) 66) @ frames (Word (next_clc (clc st)) 0)
         \<and> frames_written st (case_TEXT st) = [1, 2, 0, 0]
         \<and> clc (case_TEXT st) = next_clc (next_clc (clc st))"
proof -
  have d: "pseudoOperators n (pseudo_code TEXT) st = Inr (True, case_TEXT st)"
    by (simp add: pseudoOperators_def pseudo_code_def pseudo_order_def)
  have l: "text_loop ''TEXT /AB/\<newline>'' (CHR ''/'') 0 0 6 st
           = (0, 0, 8, incrementClc (punchOutObject (clc st) 66 st))"
    by (simp add: text_loop.simps isend_def char_code_def NUL_def Let_def)
  show ?thesis
    using assms d
    by (simp add: case_TEXT_def l line_at_def isend_def NUL_def Let_def frames_written_def
          nextLexeme_output errorMessage_output incrementClc_props punchOutObject_props)
qed

theorem C6_TEXT_AB_two_words_witness:
  "line (zero_state\<lparr>line := ''TEXT /AB/\<newline>'', lexstart := 5, clc := 128, objectfile := True\<rparr>)
     = ''TEXT /AB/\<newline>''
   \<and> frames_written (zero_state\<lparr>line := ''TEXT /AB/\<newline>'', lexstart := 5, clc := 128, objectfile := True\<rparr>)
        (case_TEXT (zero_state\<lparr>line := ''TEXT /AB/\<newline>'', lexstart := 5, clc := 128, objectfile := True\<rparr>))
      = [1, 2, 0, 0]
   \<and> clc (case_TEXT (zero_state\<lparr>line := ''TEXT /AB/\<newline>'', lexstart := 5, clc := 128, objectfile := True\<rparr>))
      = 130"
  using C6_TEXT_AB_two_words
          [of "zero_state\<lparr>line := ''TEXT /AB/\<newline>'', lexstart := 5, clc := 128, objectfile := True\<rparr>" 0]
  by (simp add: zero_state_def next_clc_def w16_def)

subsection \<open>Expression evaluation writes no output\<close>

lemma same_output_refl [simp]: "same_output st st"
  by (simp add: same_output_def)

lemma same_output_trans: "same_output a b \<Longrightarrow> same_output b c \<Longrightarrow> same_output a c"
  by (simp add: same_output_def)

lemma same_output_errorSymbol [simp]:
  "same_output a (errorSymbol m c st) = same_output a st"
  "same_output (errorSymbol m c st) b = same_output st b"
  by (simp_all add: same_output_def errorSymbol_def Let_def)

lemma same_output_errorMessage [simp]:
  "same_output a (errorMessage m c st) = same_output a st"
  "same_output (errorMessage m c st) b = same_output st b"
  by (simp_all add: errorMessage_def)

lemma same_output_errorLexeme [simp]:
  "same_output a (errorLexeme m c st) = same_output a st"
  "same_output (errorLexeme m c st) b = same_output st b"
  by (simp_all add: errorLexeme_def)

lemma same_output_nextLexeme [simp]:
  "same_output a (nextLexeme st) = same_output a st"
  "same_output (nextLexeme st) b = same_output st b"
  by (simp_all add: same_output_def nextLexeme_def Let_def errorMessage_def errorSymbol_def)

lemma same_output_lexer_fields [simp]:
  "same_output a (st\<lparr>delimiter := d\<rparr>) = same_output a st"
  "same_output a (st\<lparr>cc := c\<rparr>) = same_output a st"
  "same_output a (st\<lparr>sym_getexpr := g\<rparr>) = same_output a st"
  "same_output a (st\<lparr>indirect_generated := i\<rparr>) = same_output a st"
  "same_output (st\<lparr>delimiter := d\<rparr>) b = same_output st b"
  "same_output (st\<lparr>cc := c\<rparr>) b = same_output st b"
  "same_output (st\<lparr>sym_getexpr := g\<rparr>) b = same_output st b"
  "same_output (st\<lparr>indirect_generated := i\<rparr>) b = same_output st b"
  by (simp_all add: same_output_def)

lemma same_output_nextLexBlank [simp]:
  "same_output a (nextLexBlank st) = same_output a st"
  "same_output (nextLexBlank st) b = same_output st b"
  by (simp_all add: nextLexBlank_def Let_def)

lemma same_output_moveToEndOfLine [simp]:
  "same_output a (moveToEndOfLine st) = same_output a st"
  "same_output (moveToEndOfLine st) b = same_output st b"
  by (simp_all add: same_output_def moveToEndOfLine_def Let_def)

lemma lookup_same_output: "lookup nm st = Inr (ix, st') \<Longrightarrow> same_output st st'"
  by (auto simp: lookup_def Let_def same_output_def split: if_splits)

lemma evalSymbol_same_output: "evalSymbol st = Inr (ix, st') \<Longrightarrow> same_output st st'"
  by (auto simp: evalSymbol_def Let_def bindA_Inr_iff same_output_def lookup_def split: if_splits)

lemma search_pool_lower: "search_pool p v i = Inr ix \<Longrightarrow> - 1 \<le> i \<Longrightarrow> - 1 \<le> ix"
proof (induction p v i rule: search_pool.induct)
  case (1 p v ix0)
  show ?case
    using "1.prems" "1.IH"
    by (subst (asm) search_pool.simps) (auto split: if_splits)
qed

lemma insertLiteral_same_output: "insertLiteral r v st = Inr (ix, st') \<Longrightarrow> same_output st st'"
proof -
  assume a: "insertLiteral r v st = Inr (ix, st')"
  define r1 where "r1 = (if clc st AND 3968 = 0 then PZ else r)"
  define p where "p = get_pool r1 st"
  from a obtain i where i: "search_pool p v 127 = Inr i"
    and rest: "(if i < loc p then
             (if w16 (loc p - 1) < 0 \<or> w16 (loc p - 1) \<ge> 128
              then Inl (PoolIndexOutOfRange (w16 (loc p - 1)))
              else Inr (w16 (loc p - 1),
                        set_pool r1 (p\<lparr>loc := w16 (loc p - 1), pool := (pool p)[nat (w16 (loc p - 1)) := v]\<rparr>) st))
           else Inr (i, st)) = Inr (ix, st')"
    unfolding insertLiteral_def Let_def bindA_Inr_iff r1_def p_def by blast
  have lo: "- 1 \<le> i" using search_pool_lower[OF i] by simp
  show ?thesis
  proof (cases "i < loc p")
    case False
    then show ?thesis using rest by simp
  next
    case True
    then have "0 \<le> loc p" using lo by simp
    then have "(loc p - 1 + 32768) mod 65536 \<le> loc p - 1 + 32768"
      by (intro zmod_le_nonneg_dividend) simp
    then have le: "w16 (loc p - 1) \<le> loc p"
      by (simp add: w16_def)
    from rest True have st': "st' = set_pool r1 (p\<lparr>loc := w16 (loc p - 1), pool := (pool p)[nat (w16 (loc p - 1)) := v]\<rparr>) st"
      by (auto split: if_splits)
    show ?thesis
    proof (cases r1)
      case CP
      then show ?thesis using le by (simp add: st' same_output_def set_pool_def p_def get_pool_def)
    next
      case PZ
      then show ?thesis using le by (simp add: st' same_output_def set_pool_def p_def get_pool_def)
    qed
  qed
qed

lemma same_output_eval_number [simp]:
  "same_output a (snd (eval_number i v st)) = same_output a st"
proof (induction i v st rule: eval_number.induct)
  case (1 i v st)
  show ?case
    using "1.IH"
    by (subst eval_number.simps) (simp add: Let_def)
qed

lemma eval_identifier_same_output:
  "eval_identifier st = Inr (s, st') \<Longrightarrow> same_output st st'"
  unfolding eval_identifier_def bindA_Inr_iff
  by (elim exE conjE) (auto simp: Let_def dest: evalSymbol_same_output split: if_splits)

lemma eval_quote_same_output: "eval_quote st = (s, st') \<Longrightarrow> same_output st st'"
  by (auto simp: eval_quote_def split: if_splits)

lemma eval_dot_same_output: "eval_dot st = (s, st') \<Longrightarrow> same_output st st'"
  by (auto simp: eval_dot_def)

lemma eval_illegal_same_output: "eval_illegal st = (s, st') \<Longrightarrow> same_output st st'"
  by (auto simp: eval_illegal_def Let_def)

lemma getExpr_default_same_output: "getExpr_default st = (s, st') \<Longrightarrow> same_output st st'"
  by (auto simp: getExpr_default_def Let_def split: if_splits)

lemma getExprs_combine_same_output:
  "getExprs_combine v t symt st = Inr (v', st') \<Longrightarrow> same_output st st'"
  unfolding getExprs_combine_def Let_def
  by (auto simp: bindA_Inr_iff dest: insertLiteral_same_output split: if_splits)

lemmas expr_steps =
  insertLiteral_same_output eval_identifier_same_output eval_quote_same_output
  eval_dot_same_output eval_illegal_same_output getExpr_default_same_output
  getExprs_combine_same_output

lemma expr_same_output:
  "(\<forall>st s st'. eval n st = Inr (s, st') \<longrightarrow> same_output st st')
   \<and> (\<forall>st s st'. getExpr n st = Inr (s, st') \<longrightarrow> same_output st st')
   \<and> (\<forall>st s st'. getExpr_loop n st = Inr (s, st') \<longrightarrow> same_output st st')
   \<and> (\<forall>st v st'. getExprs n st = Inr (v, st') \<longrightarrow> same_output st st')
   \<and> (\<forall>st v0 t v st'. getExprs_loop n v0 t st = Inr (v, st') \<longrightarrow> same_output st st')"
proof (induction n)
  case 0
  show ?case by simp
next
  case (Suc n)
  then have ih_eval: "\<And>st s st'. eval n st = Inr (s, st') \<Longrightarrow> same_output st st'"
    and ih_getExpr: "\<And>st s st'. getExpr n st = Inr (s, st') \<Longrightarrow> same_output st st'"
    and ih_getExpr_loop: "\<And>st s st'. getExpr_loop n st = Inr (s, st') \<Longrightarrow> same_output st st'"
    and ih_getExprs: "\<And>st v st'. getExprs n st = Inr (v, st') \<Longrightarrow> same_output st st'"
    and ih_getExprs_loop: "\<And>st v0 t v st'. getExprs_loop n v0 t st = Inr (v, st') \<Longrightarrow> same_output st st'"
    by blast+
  note ih = ih_eval ih_getExpr ih_getExpr_loop ih_getExprs ih_getExprs_loop
  have e: "same_output st st'" if "eval (Suc n) st = Inr (s, st')" for st s st'
    using that
    by (auto simp: Let_def bindA_Inr_iff split: if_splits dest!: ih expr_steps)
       (blast intro: same_output_trans)+
  have g: "same_output st st'" if "getExpr (Suc n) st = Inr (s, st')" for st s st'
    using that
    by (auto simp: Let_def bindA_Inr_iff split: if_splits dest!: ih expr_steps)
       (blast intro: same_output_trans)+
  have gl: "same_output st st'" if "getExpr_loop (Suc n) st = Inr (s, st')" for st s st'
    using that
    by (auto simp: Let_def bindA_Inr_iff split: if_splits dest!: ih expr_steps)
       (blast intro: same_output_trans)+
  have gs: "same_output st st'" if "getExprs (Suc n) st = Inr (v, st')" for st v st'
    using that
    by (auto simp: Let_def bindA_Inr_iff split: if_splits dest!: ih expr_steps)
       (blast intro: same_output_trans)+
  have gsl: "same_output st st'" if "getExprs_loop (Suc n) v0 t st = Inr (v, st')" for st v0 t v st'
    using that
    by (auto simp: Let_def bindA_Inr_iff split: if_splits dest!: ih expr_steps)
       (blast intro: same_output_trans)+
  show ?case
    using e g gl gs gsl by blast
qed

subsection \<open>Origin statement\<close>

text \<open>
  C10: if the expression after \<open>*\<close> has been evaluated and an error is flagged on the
  line, the origin statement does nothing more: its result is the state the
  evaluation left.  In that state \<open>clc\<close> and \<open>fieldlc\<close> are those of before the
  statement, nothing has been written to the object file or added to the checksum, and
  no pool has been flushed (\<open>loc\<close> has not gone up).
\<close>

theorem C10_origin_atomic_on_error:
  assumes "getExpr n (nextLexeme st) = Inr (s, st1)" and "error_in_line st1"
  shows "case_origin n st = Inr st1
         \<and> clc st1 = clc st \<and> fieldlc st1 = fieldlc st
         \<and> object_bytes st1 = object_bytes st \<and> checksum st1 = checksum st
         \<and> loc (cp st1) \<le> loc (cp st) \<and> loc (pz st1) \<le> loc (pz st)"
proof -
  have "same_output (nextLexeme st) st1"
    using expr_same_output[of n] assms(1) by blast
  then have "same_output st st1" by simp
  moreover have "case_origin n st = Inr st1"
    using assms by (simp add: case_origin_def Let_def)
  ultimately show ?thesis by (simp add: same_output_def)
qed

theorem C10_origin_atomic_on_error_witness:
  "getExpr 5 (nextLexeme origin_error_state)
     = Inr (fst (projr (getExpr 5 (nextLexeme origin_error_state))),
            snd (projr (getExpr 5 (nextLexeme origin_error_state))))
   \<and> error_in_line (snd (projr (getExpr 5 (nextLexeme origin_error_state))))
   \<and> errorfile_log (snd (projr (getExpr 5 (nextLexeme origin_error_state)))) = [(illegal_equals, 1)]
   \<and> (case case_origin 5 origin_error_state of
         Inl e \<Rightarrow> False
       | Inr st1 \<Rightarrow> clc st1 = 128 \<and> object_bytes st1 = [])"
  using C10_origin_atomic_on_error [of 5 origin_error_state
          "fst (projr (getExpr 5 (nextLexeme origin_error_state)))"
          "snd (projr (getExpr 5 (nextLexeme origin_error_state)))"]
  by (simp add: run_defs origin_error_state_def split del: if_split cong: cbv_congs)

subsection \<open>Symbol definitions\<close>

text \<open>
  Claim C5 says that on pass 2 the first redefinition of a symbol is reported and the
  later ones are not.  \<open>defineSymbol\<close> reports \<open>redefined_symbol\<close> under
  \<open>M_REDEFINED(sym->type)\<close>, that is when the symbol carries the flag already, and sets
  the flag afterwards: a definition that changes the value is silent when it finds the
  flag clear and is reported when it finds it set.  Below, \<open>A\<close> holds the value 3 that
  pass 1 left; defining it as 1 reports nothing, defining it then as 2 and as 3
  reports each time.  The run assembles \<open>A=1\<close>, \<open>A=2\<close>, \<open>A=3\<close>: two reports.
\<close>

theorem C5_counterexample:
  "(case defineSymbol ''A'' 1 DEFINED 0
           (zero_state\<lparr>pass := 2, symtab := [sym_A (DEFINED OR CONDITION) 3]\<rparr>) of
      Inl e \<Rightarrow> False
    | Inr st1 \<Rightarrow> errorfile_log st1 = [] \<and> map type (symtab st1) = [REDEFINED]
        \<and> (case defineSymbol ''A'' 2 DEFINED 0 st1 of
              Inl e \<Rightarrow> False
            | Inr st2 \<Rightarrow> errorfile_log st2 = [(redefined_symbol, 0)]
                \<and> (case defineSymbol ''A'' 3 DEFINED 0 st2 of
                      Inl e \<Rightarrow> False
                    | Inr st3 \<Rightarrow>
                        errorfile_log st3 = [(redefined_symbol, 0), (redefined_symbol, 0)])))
   \<and> (case assemble 40 demo_symbols False False False
              ''A=1\<newline>A=2\<newline>A=3\<newline>$\<newline>'' of
      Inl e \<Rightarrow> False
    | Inr st \<Rightarrow> errorfile_log st = [(redefined_symbol, 0), (redefined_symbol, 0)]
                \<and> errors st = 2)"
  by (simp add: run_defs demo_symbols_def sym_A_def split del: if_split cong: cbv_congs)

lemma lookup_log:
  "lookup nm st = Inr (ix, st1) \<Longrightarrow> pass st1 = pass st \<and> errorfile_log st1 = errorfile_log st"
  by (auto simp: lookup_def Let_def split: if_splits)

lemma or_and_same: "((x::int) OR y) AND y = y"
  by (auto simp: bit_eq_iff bit_and_iff bit_or_iff)

text \<open>
  C5 as amended, a statement about one call: on pass 2, when \<open>defineSymbol\<close> is
  applied to a symbol that is not \<open>FIXED\<close>, is \<open>DEFINED\<close> and has a stored value other than
  the new one, the symbol is marked \<open>REDEFINED\<close>, and \<open>redefined_symbol\<close> is written to the
  error file exactly when the symbol was marked \<open>REDEFINED\<close> before the call.  \<open>ix\<close> is the
  entry \<open>lookup\<close> finds.  (A definition that leaves the value as it is stores the type it
  is given, without the mark.)
\<close>

theorem C5_redefinition_report:
  assumes "nm \<noteq> []" and "pass st = 2"
    and "lookup nm st = Inr (ix, st1)" and "0 \<le> ix" and "ix < int (length (symtab st1))"
    and "\<not> M_FIXED (type (symtab_at (symtab st1) ix))"
    and "M_DEFINED (type (symtab_at (symtab st1) ix))"
    and "val (symtab_at (symtab st1) ix) \<noteq> v"
  shows "case defineSymbol nm v ty start st of
           Inl e \<Rightarrow> False
         | Inr st' \<Rightarrow>
             type (symtab_at (symtab st') ix) = ty OR REDEFINED
             \<and> M_REDEFINED (type (symtab_at (symtab st') ix))
             \<and> errorfile_log st' = errorfile_log st @
                  (if M_REDEFINED (type (symtab_at (symtab st1) ix))
                   then [(redefined_symbol, start)] else [])"
proof -
  have p: "pass st1 = 2" and l: "errorfile_log st1 = errorfile_log st"
    using lookup_log[OF assms(3)] assms(2) by simp_all
  have n: "nat ix < length (symtab st1)"
    using assms(4,5) by simp
  show ?thesis
    using assms p l n
    by (simp add: defineSymbol_def Let_def errorSymbol_def symtab_at_def M_REDEFINED_def or_and_same)
qed

theorem C5_redefinition_report_witness:
  "(case defineSymbol ''A'' 1 DEFINED 0
            (zero_state\<lparr>pass := 2, symtab := [sym_A (DEFINED OR CONDITION) 3]\<rparr>) of
      Inl e \<Rightarrow> False
    | Inr st' \<Rightarrow> type (symtab_at (symtab st') 0) = REDEFINED \<and> errorfile_log st' = [])
   \<and> (case defineSymbol ''A'' 2 DEFINED 0
            (zero_state\<lparr>pass := 2, symtab := [sym_A REDEFINED 1]\<rparr>) of
      Inl e \<Rightarrow> False
    | Inr st' \<Rightarrow> type (symtab_at (symtab st') 0) = REDEFINED
                 \<and> errorfile_log st' = [(redefined_symbol, 0)])"
  using C5_redefinition_report
          [of "''A''" "zero_state\<lparr>pass := 2, symtab := [sym_A (DEFINED OR CONDITION) 3]\<rparr>" 0
              "zero_state\<lparr>pass := 2, symtab := [sym_A (DEFINED OR CONDITION) 3]\<rparr>" 1 DEFINED 0]
        C5_redefinition_report
          [of "''A''" "zero_state\<lparr>pass := 2, symtab := [sym_A REDEFINED 1]\<rparr>" 0
              "zero_state\<lparr>pass := 2, symtab := [sym_A REDEFINED 1]\<rparr>" 2 DEFINED 0]
  by (simp add: run_defs sym_A_def split del: if_split cong: cbv_congs)

subsection \<open>Division\<close>

text \<open>
  C9: the operator \<open>%\<close> divides without a test of the divisor.  In the model a zero
  divisor is the abort \<open>DivideByZero\<close>, and no error is reported; otherwise the quotient
  is C's.  In the loop of \<open>getExpr\<close>, with \<open>%\<close> as the lexeme, the round aborts when the
  next term has the value 0 and goes on with the quotient when it has not.  The source
  text \<open>A=1%0\<close> reaches the abort.
\<close>

theorem C9_division_unguarded:
  "apply_operator (CHR ''%'') a 0 = Inl DivideByZero
   \<and> (b \<noteq> 0 \<longrightarrow> apply_operator (CHR ''%'') a b = Inr (w16 (c_div a b)))
   \<and> (\<not> is_blank (delimiter st) \<and> line_at st (lexstart st) = CHR ''%''
        \<and> eval n (nextLexBlank st) = Inr (s, st1) \<and> val s = 0
      \<longrightarrow> getExpr_loop (Suc n) st = Inl DivideByZero)
   \<and> (\<not> is_blank (delimiter st) \<and> line_at st (lexstart st) = CHR ''%''
        \<and> eval n (nextLexBlank st) = Inr (s, st1) \<and> val s \<noteq> 0
      \<longrightarrow> getExpr_loop (Suc n) st
            = getExpr_loop n (st1\<lparr>sym_getexpr := (sym_getexpr st1)
                                   \<lparr>val := w16 (c_div (val (sym_getexpr st1)) (val s))\<rparr>\<rparr>))
   \<and> assemble 40 demo_symbols False False False ''A=1%0\<newline>$\<newline>'' = Inl DivideByZero"
proof -
  have run: "assemble 40 demo_symbols False False False ''A=1%0\<newline>$\<newline>'' = Inl DivideByZero"
    by (simp add: run_defs demo_symbols_def split del: if_split cong: cbv_congs)
  show ?thesis
    by (simp add: run apply_operator_def is_operator_def Let_def)
qed

theorem C9_division_unguarded_witness:
  "(3::int) \<noteq> 0 \<and> apply_operator (CHR ''%'') 6 3 = Inr 2
   \<and> \<not> is_blank (delimiter division_state)
   \<and> line_at division_state (lexstart division_state) = CHR ''%''
   \<and> val (sym_getexpr division_state) = 6
   \<and> val (fst (projr (eval 5 (nextLexBlank division_state)))) = 0
   \<and> getExpr_loop (Suc 5) division_state = Inl DivideByZero"
  using C9_division_unguarded
          [of 6 3 division_state 5
              "fst (projr (eval 5 (nextLexBlank division_state)))"
              "snd (projr (eval 5 (nextLexBlank division_state)))"]
  by (simp add: run_defs division_state_def demo_symbols_def split del: if_split cong: cbv_congs)

subsection \<open>Literals for off-page references\<close>

lemma search_pool_spec:
  "0 \<le> loc p \<Longrightarrow> i < 128 \<Longrightarrow> - 1 \<le> i \<Longrightarrow>
   \<exists>ix. search_pool p v i = Inr ix
        \<and> ((loc p \<le> ix \<and> ix \<le> i \<and> pool p ! nat ix = v)
           \<or> (ix < loc p \<and> (ix = i \<or> ix = loc p - 1)
              \<and> (\<forall>j. loc p \<le> j \<and> j \<le> i \<longrightarrow> pool p ! nat j \<noteq> v)))"
proof (induction p v i rule: search_pool.induct)
  case (1 p v i)
  show ?case
  proof (cases "loc p \<le> i")
    case False
    then show ?thesis
      by (subst search_pool.simps) simp
  next
    case True
    then have i0: "0 \<le> i" using "1.prems" by simp
    show ?thesis
    proof (cases "pool p ! nat i = v")
      case eq: True
      then show ?thesis
        using True i0 "1.prems" by (subst search_pool.simps) simp
    next
      case ne: False
      have unf: "search_pool p v i = search_pool p v (i - 1)"
        using True i0 "1.prems" ne by (subst search_pool.simps) simp
      obtain ix where ix: "search_pool p v (i - 1) = Inr ix"
        and c: "(loc p \<le> ix \<and> ix \<le> i - 1 \<and> pool p ! nat ix = v)
           \<or> (ix < loc p \<and> (ix = i - 1 \<or> ix = loc p - 1)
              \<and> (\<forall>j. loc p \<le> j \<and> j \<le> i - 1 \<longrightarrow> pool p ! nat j \<noteq> v))"
        using "1.IH"[of ] True i0 "1.prems" ne by fastforce
      have all: "(\<forall>j. loc p \<le> j \<and> j \<le> i - 1 \<longrightarrow> pool p ! nat j \<noteq> v)
                 \<Longrightarrow> (\<forall>j. loc p \<le> j \<and> j \<le> i \<longrightarrow> pool p ! nat j \<noteq> v)"
      proof (intro allI impI)
        fix j
        assume a: "\<forall>j. loc p \<le> j \<and> j \<le> i - 1 \<longrightarrow> pool p ! nat j \<noteq> v" and b: "loc p \<le> j \<and> j \<le> i"
        show "pool p ! nat j \<noteq> v"
        proof (cases "j = i")
          case True
          then show ?thesis using ne by simp
        next
          case False
          then have "j \<le> i - 1" using b by simp
          then show ?thesis using a b by blast
        qed
      qed
      from c show ?thesis
      proof
        assume "loc p \<le> ix \<and> ix \<le> i - 1 \<and> pool p ! nat ix = v"
        then show ?thesis using ix unf by auto
      next
        assume d: "ix < loc p \<and> (ix = i - 1 \<or> ix = loc p - 1)
              \<and> (\<forall>j. loc p \<le> j \<and> j \<le> i - 1 \<longrightarrow> pool p ! nat j \<noteq> v)"
        then have "ix = loc p - 1" using True by auto
        then show ?thesis using ix unf d all by auto
      qed
    qed
  qed
qed

lemma pool_entries_mem:
  "0 \<le> loc p \<Longrightarrow> length (pool p) = 128 \<Longrightarrow>
   v \<in> set (pool_entries p) \<longleftrightarrow> (\<exists>j. loc p \<le> j \<and> j \<le> 127 \<and> pool p ! nat j = v)"
proof
  assume h: "0 \<le> loc p" "length (pool p) = 128" and m: "v \<in> set (pool_entries p)"
  then obtain k where k: "k < length (pool p) - nat (loc p)" "pool p ! (nat (loc p) + k) = v"
    by (auto simp: pool_entries_def in_set_conv_nth)
  have "loc p \<le> loc p + int k \<and> loc p + int k \<le> 127 \<and> pool p ! nat (loc p + int k) = v"
    using k h by (simp add: nat_add_distrib)
  then show "\<exists>j. loc p \<le> j \<and> j \<le> 127 \<and> pool p ! nat j = v" by blast
next
  assume h: "0 \<le> loc p" "length (pool p) = 128" and e: "\<exists>j. loc p \<le> j \<and> j \<le> 127 \<and> pool p ! nat j = v"
  then obtain j where j: "loc p \<le> j" "j \<le> 127" "pool p ! nat j = v" by blast
  have "nat j - nat (loc p) < length (pool p) - nat (loc p)"
    using j h by simp
  moreover have "drop (nat (loc p)) (pool p) ! (nat j - nat (loc p)) = v"
    using j h by simp
  ultimately show "v \<in> set (pool_entries p)"
    unfolding pool_entries_def by (metis length_drop nth_mem)
qed

lemma drop_update_head:
  "k < length xs \<Longrightarrow> drop k (xs[k := a]) = a # drop (Suc k) xs"
  by (simp add: Cons_nth_drop_Suc[symmetric])

lemma w16_small: "- 32768 \<le> x \<Longrightarrow> x < 32768 \<Longrightarrow> w16 x = x"
  by (simp add: w16_def)

lemma insertLiteral_spec:
  assumes r: "r = (if clc st AND 3968 = 0 then PZ else r0)"
    and p: "0 \<le> loc (get_pool r st)" "loc (get_pool r st) \<le> 128" "length (pool (get_pool r st)) = 128"
    and room: "0 < loc (get_pool r st) \<or> a \<in> set (pool_entries (get_pool r st))"
  shows "\<exists>ix st1. insertLiteral r0 a st = Inr (ix, st1)
           \<and> loc (get_pool r st1) \<le> ix \<and> ix < 128 \<and> 0 \<le> ix
           \<and> pool (get_pool r st1) ! nat ix = a
           \<and> pool_entries (get_pool r st1)
               = (if a \<in> set (pool_entries (get_pool r st)) then pool_entries (get_pool r st)
                  else a # pool_entries (get_pool r st))
           \<and> st1 = (if a \<in> set (pool_entries (get_pool r st)) then st
                    else set_pool r ((get_pool r st)\<lparr>loc := loc (get_pool r st) - 1,
                           pool := (pool (get_pool r st))[nat (loc (get_pool r st) - 1) := a]\<rparr>) st)"
proof -
  define q where "q = get_pool r st"
  obtain i where i: "search_pool q a 127 = Inr i"
    and c: "(loc q \<le> i \<and> i \<le> 127 \<and> pool q ! nat i = a)
           \<or> (i < loc q \<and> (i = 127 \<or> i = loc q - 1)
              \<and> (\<forall>j. loc q \<le> j \<and> j \<le> 127 \<longrightarrow> pool q ! nat j \<noteq> a))"
    using search_pool_spec[of q 127 a] p(1) unfolding q_def by auto
  have mem: "a \<in> set (pool_entries q) \<longleftrightarrow> (\<exists>j. loc q \<le> j \<and> j \<le> 127 \<and> pool q ! nat j = a)"
    using pool_entries_mem[of q a] p unfolding q_def by simp
  have unf: "insertLiteral r0 a st =
      (if i < loc q then
             (let l = w16 (loc q - 1)
              in if l < 0 \<or> l \<ge> 128 then Inl (PoolIndexOutOfRange l)
                 else Inr (l, set_pool r (q\<lparr>loc := l, pool := (pool q)[nat l := a]\<rparr>) st))
           else Inr (i, st))"
    using i unfolding insertLiteral_def Let_def q_def r by simp
  from c show ?thesis
  proof
    assume f: "loc q \<le> i \<and> i \<le> 127 \<and> pool q ! nat i = a"
    then have m: "a \<in> set (pool_entries q)" using mem by blast
    have "0 \<le> i" using f p(1) unfolding q_def by simp
    then show ?thesis
      using f m unf by (simp add: q_def)
  next
    assume n: "i < loc q \<and> (i = 127 \<or> i = loc q - 1)
              \<and> (\<forall>j. loc q \<le> j \<and> j \<le> 127 \<longrightarrow> pool q ! nat j \<noteq> a)"
    then have m: "a \<notin> set (pool_entries q)" using mem by blast
    then have pos: "0 < loc q" using room unfolding q_def by simp
    have w: "w16 (loc q - 1) = loc q - 1"
      using pos p(2) unfolding q_def[symmetric] by (intro w16_small) simp_all
    have k: "nat (loc q - 1) < length (pool q)" "Suc (nat (loc q - 1)) = nat (loc q)"
      using pos p unfolding q_def[symmetric] by simp_all
    have ins: "insertLiteral r0 a st
        = Inr (loc q - 1, set_pool r (q\<lparr>loc := loc q - 1, pool := (pool q)[nat (loc q - 1) := a]\<rparr>) st)"
      using unf n w pos p(2) unfolding q_def[symmetric] by (simp add: Let_def)
    have gp: "get_pool r (set_pool r x st) = x" for x
      by (cases r) (simp_all add: get_pool_def set_pool_def)
    have "drop (nat (loc q - 1)) ((pool q)[nat (loc q - 1) := a]) = a # drop (nat (loc q)) (pool q)"
      using k by (simp add: drop_update_head)
    then show ?thesis
      using m pos p(2) k(1) by (simp add: ins gp pool_entries_def q_def)
  qed
qed

text \<open>
  What \<open>getExprs\<close> does with an off-page address when the type of the value so far is
  exactly \<open>MRI\<close> or \<open>MRIFIX\<close>, \<open>literals_on\<close> is set and the indirect bit is clear: it
  calls \<open>insertLiteral\<close> once.  The pool \<open>r\<close> that takes the literal is \<open>cp\<close>, or \<open>pz\<close> when
  \<open>clc\<close> is on page zero.  If that pool has room or holds \<open>a\<close> already, then afterwards
  it holds \<open>a\<close> at the index returned: an entry that was there is used again and the pool
  is unchanged, otherwise \<open>a\<close> is the one new entry.  The value gets \<open>0600\<close> and the index
  or-ed in, and \<open>indirect_generated\<close> is set.
\<close>

lemma offpage_literal_inserted:
  assumes "value_type = MRI \<or> value_type = MRIFIX"
    and "type symt \<noteq> MRI" and "type symt \<noteq> MRIFIX"
    and "a = val symt AND 4095"
    and "128 \<le> a"
    and "\<not> (((fieldlc st + reloc st) AND 3968) \<le> a \<and> a \<le> ((fieldlc st + reloc st) OR 127))"
    and "v AND 256 \<noteq> 256"
    and "literals_on st"
    and "r = (if clc st AND 3968 = 0 then PZ else CP)"
    and "0 \<le> loc (get_pool r st)" and "loc (get_pool r st) \<le> 128"
    and "length (pool (get_pool r st)) = 128"
    and "0 < loc (get_pool r st) \<or> a \<in> set (pool_entries (get_pool r st))"
  shows "case insertLiteral CP a st of
           Inl e \<Rightarrow> False
         | Inr lit \<Rightarrow>
             getExprs_combine v value_type symt st
               = Inr (w16 (v OR (384 OR fst lit)), (snd lit)\<lparr>indirect_generated := True\<rparr>)
             \<and> 0 \<le> fst lit \<and> fst lit < 128 \<and> loc (get_pool r (snd lit)) \<le> fst lit
             \<and> pool (get_pool r (snd lit)) ! nat (fst lit) = a
             \<and> pool_entries (get_pool r (snd lit))
                 = (if a \<in> set (pool_entries (get_pool r st)) then pool_entries (get_pool r st)
                    else a # pool_entries (get_pool r st))
             \<and> (r = PZ \<longrightarrow> cp (snd lit) = cp st) \<and> (r = CP \<longrightarrow> pz (snd lit) = pz st)"
proof -
  obtain ix st1 where ins: "insertLiteral CP a st = Inr (ix, st1)"
    and props: "loc (get_pool r st1) \<le> ix" "ix < 128" "0 \<le> ix"
      "pool (get_pool r st1) ! nat ix = a"
      "pool_entries (get_pool r st1)
         = (if a \<in> set (pool_entries (get_pool r st)) then pool_entries (get_pool r st)
            else a # pool_entries (get_pool r st))"
    and st1: "st1 = (if a \<in> set (pool_entries (get_pool r st)) then st
                    else set_pool r ((get_pool r st)\<lparr>loc := loc (get_pool r st) - 1,
                           pool := (pool (get_pool r st))[nat (loc (get_pool r st) - 1) := a]\<rparr>) st)"
    using insertLiteral_spec[OF assms(9,10,11,12,13)] by blast
  have other: "(r = PZ \<longrightarrow> cp st1 = cp st) \<and> (r = CP \<longrightarrow> pz st1 = pz st)"
    by (cases r) (simp_all add: st1 set_pool_def)
  have comb: "getExprs_combine v value_type symt st
               = Inr (w16 (v OR (384 OR ix)), st1\<lparr>indirect_generated := True\<rparr>)"
    using assms(1-8) ins by (auto simp: getExprs_combine_def Let_def)
  show ?thesis
    using props other comb by (simp add: ins)
qed

text \<open>
  Claim C3 says that \<open>getExprs\<close> gives an off-page reference of a memory-reference
  instruction a literal and an indirect operand.  \<open>getExprs\<close> knows the instruction by
  \<open>switch( value_type )\<close> with the cases \<open>MRI\<close> and \<open>MRIFIX\<close>: the whole type word has to
  be one of the two.  A symbol that \<open>FIXMRI\<close> defines has the type \<open>MRI | CONDITION\<close> in
  pass 1, and once \<open>FIXTAB\<close> has made it permanent pass 2 no longer redefines it: its
  type stays \<open>MRI | CONDITION | FIXED\<close>, for which \<open>M_MRI\<close> holds and the switch takes the
  default branch.  The first run assembles \<open>FOO 0400\<close> for such a symbol \<open>FOO = 1000\<close> at
  location \<open>0200\<close> with literals on: the word is \<open>01400\<close>, the address or-ed in, and no
  literal is punched or stored.  The second run assembles \<open>TAD 0400\<close> in the same place:
  the word is \<open>01777\<close>, and the literal \<open>0400\<close> is punched at \<open>0377\<close>.
\<close>

theorem C3_FIXMRI_symbol_gets_no_literal:
  "(case assemble 40 demo_symbols True False False
           ''FIXMRI FOO=1000\<newline>FIXTAB\<newline>FOO 0400\<newline>$\<newline>'' of
      Inl e \<Rightarrow> False
    | Inr st \<Rightarrow> drop 240 (object_bytes st) = [12, 0, 0, 12, 128]
        \<and> pool (cp st) = replicate 128 0 \<and> errorfile_log st = [])
   \<and> (case assemble 40 demo_symbols True False False ''TAD 0400\<newline>$\<newline>'' of
      Inl e \<Rightarrow> False
    | Inr st \<Rightarrow> drop 240 (object_bytes st) = [15, 63, 67, 63, 4, 0, 3, 20, 128]
        \<and> pool (cp st) ! 127 = 256)
   \<and> getExprs_combine 512 (MRI OR CONDITION OR FIXED) (sym_eval 256) st = Inr (768, st)
   \<and> M_MRI (MRI OR CONDITION OR FIXED)
   \<and> MRI OR CONDITION OR FIXED \<noteq> MRI \<and> MRI OR CONDITION OR FIXED \<noteq> MRIFIX"
  by (simp add: run_defs demo_symbols_def split del: if_split cong: cbv_congs)

end
